theory Spec2Isabelle
  imports Complex_Main
begin

section \<open>JavaScript numbers\<close>

text \<open>
  Every amount and quantity of \<^verbatim>\<open>geektrust.js\<close> is a JavaScript number. The model keeps
  the three special values the program can produce (\<^verbatim>\<open>NaN\<close> from \<^verbatim>\<open>parseInt\<close>, and
  \<^verbatim>\<open>Infinity\<close>, the start value of the minimum fold) and takes every other number as an
  exact rational: the rounding of IEEE doubles and the sign of zero are not modelled.
\<close>

datatype jsnum = Fin rat | PosInf | NegInf | NaN

fun js_neg :: "jsnum \<Rightarrow> jsnum" where
  "js_neg (Fin a) = Fin (- a)"
| "js_neg PosInf = NegInf"
| "js_neg NegInf = PosInf"
| "js_neg NaN = NaN"

fun js_add :: "jsnum \<Rightarrow> jsnum \<Rightarrow> jsnum" where
  "js_add NaN y = NaN"
| "js_add x NaN = NaN"
| "js_add (Fin a) (Fin b) = Fin (a + b)"
| "js_add PosInf NegInf = NaN"
| "js_add NegInf PosInf = NaN"
| "js_add PosInf y = PosInf"
| "js_add NegInf y = NegInf"
| "js_add (Fin a) y = y"

definition js_sub :: "jsnum \<Rightarrow> jsnum \<Rightarrow> jsnum" where
  "js_sub x y = js_add x (js_neg y)"

fun js_sgn :: "jsnum \<Rightarrow> rat" where
  "js_sgn (Fin a) = sgn a"
| "js_sgn PosInf = 1"
| "js_sgn NegInf = - 1"
| "js_sgn NaN = 0"

fun js_mul :: "jsnum \<Rightarrow> jsnum \<Rightarrow> jsnum" where
  "js_mul NaN y = NaN"
| "js_mul x NaN = NaN"
| "js_mul (Fin a) (Fin b) = Fin (a * b)"
| "js_mul x y =
     (if js_sgn x * js_sgn y = 0 then NaN
      else if 0 < js_sgn x * js_sgn y then PosInf else NegInf)"

text \<open>The comparisons: each is false as soon as one side is \<^verbatim>\<open>NaN\<close>.\<close>

fun js_lt :: "jsnum \<Rightarrow> jsnum \<Rightarrow> bool" where
  "js_lt NaN y = False"
| "js_lt x NaN = False"
| "js_lt (Fin a) (Fin b) = (a < b)"
| "js_lt PosInf y = False"
| "js_lt x PosInf = True"
| "js_lt x NegInf = False"
| "js_lt NegInf y = True"

definition js_gt :: "jsnum \<Rightarrow> jsnum \<Rightarrow> bool" where
  "js_gt x y = js_lt y x"

definition js_ge :: "jsnum \<Rightarrow> jsnum \<Rightarrow> bool" where
  "js_ge x y = (x \<noteq> NaN \<and> y \<noteq> NaN \<and> (js_lt y x \<or> x = y))"

text \<open>\<^verbatim>\<open>Math.min\<close> of two arguments.\<close>

definition Math_min :: "jsnum \<Rightarrow> jsnum \<Rightarrow> jsnum" where
  "Math_min x y = (if x = NaN \<or> y = NaN then NaN else if js_lt y x then y else x)"

text \<open>The sum of a list of numbers, from the right, starting at 0.\<close>

fun js_sum :: "jsnum list \<Rightarrow> jsnum" where
  "js_sum [] = Fin 0"
| "js_sum (x # xs) = js_add x (js_sum xs)"

section \<open>Strings\<close>

text \<open>
  Command lines are taken as ASCII text. \<^verbatim>\<open>toLowerCase\<close> and \<^verbatim>\<open>toUpperCase\<close> change
  the 26 letters and nothing else.
\<close>

definition toLowerCase_char :: "char \<Rightarrow> char" where
  "toLowerCase_char c =
     (let n = (of_char c :: nat) in if 65 \<le> n \<and> n \<le> 90 then char_of (n + 32) else c)"

definition toUpperCase_char :: "char \<Rightarrow> char" where
  "toUpperCase_char c =
     (let n = (of_char c :: nat) in if 97 \<le> n \<and> n \<le> 122 then char_of (n - 32) else c)"

definition toLowerCase :: "string \<Rightarrow> string" where
  "toLowerCase s = map toLowerCase_char s"

definition toUpperCase :: "string \<Rightarrow> string" where
  "toUpperCase s = map toUpperCase_char s"

text \<open>
  \<^verbatim>\<open>s.split(sep)\<close> for a one-character separator: the pieces between the separators,
  empty pieces kept, so the result is never the empty list.
\<close>

fun split_on :: "char \<Rightarrow> string \<Rightarrow> string list" where
  "split_on sep [] = [[]]"
| "split_on sep (c # cs) =
     (if c = sep then [] # split_on sep cs
      else (case split_on sep cs of
              [] \<Rightarrow> [[c]]
            | t # ts \<Rightarrow> (c # t) # ts))"

text \<open>
  \<^verbatim>\<open>parseInt(s)\<close> with no radix: leading white space is skipped, then an optional sign,
  then \<^verbatim>\<open>0x\<close> or \<^verbatim>\<open>0X\<close> selects base 16, then the longest run of digits is read; with
  no digit the result is \<^verbatim>\<open>NaN\<close>. The integer read is kept exact, however long the run
  of digits is.
\<close>

definition is_space :: "char \<Rightarrow> bool" where
  "is_space c = (c \<in> set [CHR 0x20, CHR 0x09, CHR 0x0A, CHR 0x0B, CHR 0x0C, CHR 0x0D])"

definition digit_value :: "char \<Rightarrow> nat option" where
  "digit_value c =
     (let n = (of_char c :: nat) in
      if 48 \<le> n \<and> n \<le> 57 then Some (n - 48)
      else if 97 \<le> n \<and> n \<le> 102 then Some (n - 87)
      else if 65 \<le> n \<and> n \<le> 70 then Some (n - 55)
      else None)"

fun read_digits :: "nat \<Rightarrow> string \<Rightarrow> nat option \<Rightarrow> nat option" where
  "read_digits radix [] acc = acc"
| "read_digits radix (c # cs) acc =
     (case digit_value c of
        None \<Rightarrow> acc
      | Some d \<Rightarrow>
          if d < radix
          then read_digits radix cs (Some ((case acc of None \<Rightarrow> 0 | Some a \<Rightarrow> a) * radix + d))
          else acc)"

definition parseInt :: "string \<Rightarrow> jsnum" where
  "parseInt s =
     (let s1 = dropWhile is_space s;
          negative = (case s1 of c # _ \<Rightarrow> c = CHR ''-'' | [] \<Rightarrow> False);
          s2 = (case s1 of c # cs \<Rightarrow> if c = CHR ''-'' \<or> c = CHR ''+'' then cs else s1 | [] \<Rightarrow> s1);
          hex = (take 2 s2 = ''0x'' \<or> take 2 s2 = ''0X'');
          s3 = (if hex then drop 2 s2 else s2)
      in case read_digits (if hex then 16 else 10) s3 None of
           None \<Rightarrow> NaN
         | Some v \<Rightarrow> Fin (if negative then - of_nat v else of_nat v))"

section \<open>Programmes\<close>

text \<open>
  The type of a programme is the value of \<^verbatim>\<open>ProgrammeType[tokens[1]]\<close>: one of the three
  names of the table, or something else (\<^verbatim>\<open>undefined\<close>, or a member every object
  inherits), which no comparison of the program tells apart.
\<close>

datatype ProgrammeType = CERTIFICATION | DEGREE | DIPLOMA | OTHER

definition ProgrammeType_lookup :: "string \<Rightarrow> ProgrammeType" where
  "ProgrammeType_lookup k =
     (if k = ''CERTIFICATION'' then CERTIFICATION
      else if k = ''DEGREE'' then DEGREE
      else if k = ''DIPLOMA'' then DIPLOMA
      else OTHER)"

record Programme =
  ptype :: ProgrammeType
  quantity :: jsnum

fun single_cost :: "ProgrammeType \<Rightarrow> jsnum" where
  "single_cost CERTIFICATION = Fin 3000"
| "single_cost DEGREE = Fin 5000"
| "single_cost DIPLOMA = Fin 2500"
| "single_cost OTHER = Fin 0"

definition getSingleCost :: "Programme \<Rightarrow> jsnum" where
  "getSingleCost p = single_cost (ptype p)"

definition getCost :: "Programme \<Rightarrow> jsnum" where
  "getCost p = js_mul (getSingleCost p) (quantity p)"

fun discount_rate :: "ProgrammeType \<Rightarrow> jsnum" where
  "discount_rate CERTIFICATION = Fin (2 / 100)"
| "discount_rate DEGREE = Fin (3 / 100)"
| "discount_rate DIPLOMA = Fin (1 / 100)"
| "discount_rate OTHER = Fin 0"

definition getDiscountRate :: "Programme \<Rightarrow> jsnum" where
  "getDiscountRate p = discount_rate (ptype p)"

section \<open>Constants\<close>

definition PRO_MEMBERSHIP_FEE :: jsnum where
  "PRO_MEMBERSHIP_FEE = Fin 200"

definition MIN_DISCOUNTABLE_QUANTITY :: jsnum where
  "MIN_DISCOUNTABLE_QUANTITY = Fin 4"

definition DEFAULT_ENROLLMENT_FEE_THRESHOLD :: jsnum where
  "DEFAULT_ENROLLMENT_FEE_THRESHOLD = Fin 6666"

definition DEFAULT_ENROLLMENT_FEE :: jsnum where
  "DEFAULT_ENROLLMENT_FEE = Fin 500"

section \<open>Strategies\<close>

text \<open>
  A call of a method on \<^verbatim>\<open>null\<close>, on \<^verbatim>\<open>undefined\<close> or on an object that has no such
  method throws a \<^verbatim>\<open>TypeError\<close>; nothing in the program catches it.
\<close>

datatype error = TypeError

text \<open>
  The discount strategies a cart can hold: the three classes of the source, and the two
  values that the lookup \<^verbatim>\<open>discountStrategies[coupon.toLowerCase()]\<close> finds on the
  prototype of the table for the keys \<^verbatim>\<open>constructor\<close> and \<^verbatim>\<open>__proto__\<close>. Both are
  truthy and neither has a method \<^verbatim>\<open>calculateDiscount\<close>.
\<close>

datatype DiscountStrategy =
  B4G1Discount | DealG20Discount | DealG5Discount | Object_constructor | Object_prototype

fun DiscountStrategy_calculateDiscount :: "DiscountStrategy \<Rightarrow> jsnum \<Rightarrow> error + jsnum" where
  "DiscountStrategy_calculateDiscount B4G1Discount beforeDiscount = Inr (Fin 0)"
| "DiscountStrategy_calculateDiscount DealG20Discount beforeDiscount =
     Inr (if js_ge beforeDiscount (Fin 0) then js_mul beforeDiscount (Fin (20 / 100)) else Fin 0)"
| "DiscountStrategy_calculateDiscount DealG5Discount beforeDiscount =
     Inr (if js_ge beforeDiscount (Fin 0) then js_mul beforeDiscount (Fin (5 / 100)) else Fin 0)"
| "DiscountStrategy_calculateDiscount Object_constructor beforeDiscount = Inl TypeError"
| "DiscountStrategy_calculateDiscount Object_prototype beforeDiscount = Inl TypeError"

datatype EnrollmentStrategy = DefaultEnrollmentStrategy

fun EnrollmentStrategy_calculateEnrollmentFee :: "EnrollmentStrategy \<Rightarrow> jsnum \<Rightarrow> jsnum" where
  "EnrollmentStrategy_calculateEnrollmentFee DefaultEnrollmentStrategy totalCost =
     (if js_lt totalCost DEFAULT_ENROLLMENT_FEE_THRESHOLD then DEFAULT_ENROLLMENT_FEE else Fin 0)"

datatype ProMembershipStrategy = ProMembershipDiscount

fun ProMembershipStrategy_calculateDiscount ::
  "ProMembershipStrategy \<Rightarrow> Programme list \<Rightarrow> jsnum" where
  "ProMembershipStrategy_calculateDiscount ProMembershipDiscount programmes =
     foldl (\<lambda>sum programme. js_add sum (js_mul (getDiscountRate programme) (getCost programme)))
       (Fin 0) programmes"

section \<open>The cart\<close>

text \<open>A field that holds \<^verbatim>\<open>null\<close> is \<open>None\<close>.\<close>

record GeekdemyCart =
  programmes :: "Programme list"
  discountStrategy :: "DiscountStrategy option"
  enrollmentStrategy :: "EnrollmentStrategy option"
  proMembershipStrategy :: "ProMembershipStrategy option"
  proMembershipFee :: jsnum
  subtotal :: jsnum
  discount :: jsnum
  enrollmentFee :: jsnum
  proMembershipDiscount :: jsnum
  appliedCoupon :: "string option"

definition new_GeekdemyCart :: GeekdemyCart where
  "new_GeekdemyCart =
     \<lparr>programmes = [], discountStrategy = None, enrollmentStrategy = None,
      proMembershipStrategy = None, proMembershipFee = Fin 0, subtotal = Fin 0,
      discount = Fin 0, enrollmentFee = Fin 0, proMembershipDiscount = Fin 0,
      appliedCoupon = None\<rparr>"

definition getAppliedCoupon :: "GeekdemyCart \<Rightarrow> string option" where
  "getAppliedCoupon c = appliedCoupon c"

definition setAppliedCoupon :: "GeekdemyCart \<Rightarrow> string \<Rightarrow> GeekdemyCart" where
  "setAppliedCoupon c coupon = c\<lparr>appliedCoupon := Some coupon\<rparr>"

definition setDiscountStrategy :: "GeekdemyCart \<Rightarrow> DiscountStrategy \<Rightarrow> GeekdemyCart" where
  "setDiscountStrategy c s = c\<lparr>discountStrategy := Some s\<rparr>"

definition setEnrollmentStrategy :: "GeekdemyCart \<Rightarrow> EnrollmentStrategy \<Rightarrow> GeekdemyCart" where
  "setEnrollmentStrategy c s = c\<lparr>enrollmentStrategy := Some s\<rparr>"

definition setProMembershipStrategy ::
  "GeekdemyCart \<Rightarrow> ProMembershipStrategy \<Rightarrow> GeekdemyCart" where
  "setProMembershipStrategy c s = c\<lparr>proMembershipStrategy := Some s\<rparr>"

definition addProMembershipFee :: "GeekdemyCart \<Rightarrow> GeekdemyCart" where
  "addProMembershipFee c = c\<lparr>proMembershipFee := PRO_MEMBERSHIP_FEE\<rparr>"

definition getProMembershipFee :: "GeekdemyCart \<Rightarrow> jsnum" where
  "getProMembershipFee c = proMembershipFee c"

definition addProgramme_cart :: "GeekdemyCart \<Rightarrow> Programme \<Rightarrow> GeekdemyCart" where
  "addProgramme_cart c programme = c\<lparr>programmes := programmes c @ [programme]\<rparr>"

text \<open>
  The \<^verbatim>\<open>calculate*\<close> methods store what they compute in a field of the cart and return
  it, so each returns the value together with the cart after the call.
\<close>

definition calculateSubtotal :: "GeekdemyCart \<Rightarrow> jsnum \<times> GeekdemyCart" where
  "calculateSubtotal c =
     (let s = foldl (\<lambda>sum programme. js_add sum (getCost programme)) (Fin 0) (programmes c)
      in (s, c\<lparr>subtotal := s\<rparr>))"

definition calculateProMembershipDiscount ::
  "GeekdemyCart \<Rightarrow> error + (jsnum \<times> GeekdemyCart)" where
  "calculateProMembershipDiscount c =
     (if js_gt (proMembershipFee c) (Fin 0)
      then (case proMembershipStrategy c of
              None \<Rightarrow> Inl TypeError
            | Some s \<Rightarrow>
                (let d = ProMembershipStrategy_calculateDiscount s (programmes c)
                 in Inr (d, c\<lparr>proMembershipDiscount := d\<rparr>)))
      else Inr (proMembershipDiscount c, c))"

definition isDiscountableProgramme :: "ProgrammeType \<Rightarrow> bool" where
  "isDiscountableProgramme t = (t \<in> set [CERTIFICATION, DEGREE, DIPLOMA])"

definition totalDiscountableQuantity :: "GeekdemyCart \<Rightarrow> jsnum" where
  "totalDiscountableQuantity c =
     foldl (\<lambda>sum programme. js_add sum (quantity programme)) (Fin 0)
       (filter (\<lambda>programme. isDiscountableProgramme (ptype programme)) (programmes c))"

definition calculateMinimumDiscountableProgrammeCost :: "GeekdemyCart \<Rightarrow> jsnum" where
  "calculateMinimumDiscountableProgrammeCost c =
     foldl (\<lambda>minCost programme. Math_min minCost (getSingleCost programme)) PosInf
       (filter (\<lambda>programme. isDiscountableProgramme (ptype programme)) (programmes c))"

definition calculateDiscount :: "GeekdemyCart \<Rightarrow> error + (jsnum \<times> GeekdemyCart)" where
  "calculateDiscount c =
     (if js_ge (totalDiscountableQuantity c) MIN_DISCOUNTABLE_QUANTITY
      then (let d = calculateMinimumDiscountableProgrammeCost c in Inr (d, c\<lparr>discount := d\<rparr>))
      else (let beforeDiscount =
                  js_sub (js_add (js_add (subtotal c) (enrollmentFee c)) (proMembershipFee c))
                    (proMembershipDiscount c)
            in case discountStrategy c of
                 None \<Rightarrow> Inl TypeError
               | Some s \<Rightarrow>
                   (case DiscountStrategy_calculateDiscount s beforeDiscount of
                      Inl e \<Rightarrow> Inl e
                    | Inr d \<Rightarrow> Inr (d, c\<lparr>discount := d\<rparr>))))"

definition calculateEnrollmentFee :: "GeekdemyCart \<Rightarrow> error + (jsnum \<times> GeekdemyCart)" where
  "calculateEnrollmentFee c =
     (case enrollmentStrategy c of
        None \<Rightarrow> Inl TypeError
      | Some s \<Rightarrow>
          (let f = EnrollmentStrategy_calculateEnrollmentFee s (subtotal c)
           in Inr (f, c\<lparr>enrollmentFee := f\<rparr>)))"

definition calculateTotalFare :: "GeekdemyCart \<Rightarrow> error + (jsnum \<times> GeekdemyCart)" where
  "calculateTotalFare c =
     (let totalBeforeDiscount =
            js_sub (js_add (js_add (subtotal c) (enrollmentFee c)) (proMembershipFee c))
              (proMembershipDiscount c)
      in if js_ge (totalDiscountableQuantity c) MIN_DISCOUNTABLE_QUANTITY
         then (let d = calculateMinimumDiscountableProgrammeCost c
               in Inr (js_sub totalBeforeDiscount d, c\<lparr>discount := d\<rparr>))
         else (case discountStrategy c of
                 None \<Rightarrow> Inl TypeError
               | Some s \<Rightarrow>
                   (case DiscountStrategy_calculateDiscount s totalBeforeDiscount of
                      Inl e \<Rightarrow> Inl e
                    | Inr d \<Rightarrow> Inr (js_sub totalBeforeDiscount d, c\<lparr>discount := d\<rparr>))))"

section \<open>Commands\<close>

text \<open>
  The counter \<^verbatim>\<open>count\<close> is a variable of the module, outside the cart; a run carries
  both.
\<close>

record run_state =
  cart :: GeekdemyCart
  count :: jsnum

definition addProgramme :: "run_state \<Rightarrow> string list \<Rightarrow> run_state" where
  "addProgramme st tokens =
     (if length tokens = 3
      then (let programmeType = ProgrammeType_lookup (tokens ! 1);
                qty = parseInt (tokens ! 2)
            in \<lparr>cart = addProgramme_cart (cart st) \<lparr>ptype = programmeType, quantity = qty\<rparr>,
                count = js_add (count st) qty\<rparr>)
      else st)"

text \<open>
  The table of \<^verbatim>\<open>applyOtherCoupon\<close>, read with a key: its two own entries, the two
  lower-case members it inherits, and \<^verbatim>\<open>undefined\<close> (\<open>None\<close>) for every other key.
\<close>

definition discountStrategies :: "string \<Rightarrow> DiscountStrategy option" where
  "discountStrategies k =
     (if k = ''deal_g20'' then Some DealG20Discount
      else if k = ''deal_g5'' then Some DealG5Discount
      else if k = ''constructor'' then Some Object_constructor
      else if k = ''__proto__'' then Some Object_prototype
      else None)"

text \<open>
  \<^verbatim>\<open>coupon\<close> is \<^verbatim>\<open>tokens[1]\<close>, which is \<^verbatim>\<open>undefined\<close> (\<open>None\<close>) when the command has
  one token; \<^verbatim>\<open>coupon.toLowerCase()\<close> throws then.
\<close>

definition applyOtherCoupon :: "GeekdemyCart \<Rightarrow> string option \<Rightarrow> error + GeekdemyCart" where
  "applyOtherCoupon c coupon =
     (case coupon of
        None \<Rightarrow> Inl TypeError
      | Some cp \<Rightarrow>
          (case discountStrategies (toLowerCase cp) of
             None \<Rightarrow> Inr c
           | Some strategy \<Rightarrow>
               Inr (setAppliedCoupon (setDiscountStrategy c strategy) (toUpperCase cp))))"

definition token_at :: "string list \<Rightarrow> nat \<Rightarrow> string option" where
  "token_at tokens i = (if i < length tokens then Some (tokens ! i) else None)"

definition applyCoupon :: "run_state \<Rightarrow> string list \<Rightarrow> error + run_state" where
  "applyCoupon st tokens =
     (if getAppliedCoupon (cart st) = None \<and> js_ge (count st) MIN_DISCOUNTABLE_QUANTITY
         \<and> length tokens = 2
      then Inr (st\<lparr>cart := setAppliedCoupon (cart st) ''B4G1''\<rparr>)
      else if getAppliedCoupon (cart st) = None
      then (case applyOtherCoupon (cart st) (token_at tokens 1) of
              Inl e \<Rightarrow> Inl e
            | Inr c \<Rightarrow> Inr (st\<lparr>cart := c\<rparr>))
      else Inr st)"

definition applyProMembershipCoupon :: "GeekdemyCart \<Rightarrow> error + GeekdemyCart" where
  "applyProMembershipCoupon c =
     (case calculateProMembershipDiscount c of
        Inl e \<Rightarrow> Inl e
      | Inr (d, c1) \<Rightarrow> Inr (addProMembershipFee (setProMembershipStrategy c1 ProMembershipDiscount)))"

definition processCommand :: "run_state \<Rightarrow> string \<Rightarrow> error + run_state" where
  "processCommand st command =
     (let tokens = split_on CHR '' '' command
      in case token_at tokens 0 of
           None \<Rightarrow> Inr st
         | Some t \<Rightarrow>
             if t = ''ADD_PROGRAMME'' then Inr (addProgramme st tokens)
             else if t = ''PRO_MEMBERSHIP''
             then (case applyProMembershipCoupon (cart st) of
                     Inl e \<Rightarrow> Inl e
                   | Inr c \<Rightarrow> Inr (st\<lparr>cart := c\<rparr>))
             else if t = ''APPLY_COUPON'' then applyCoupon st tokens
             else Inr st)"

text \<open>\<^verbatim>\<open>forEach\<close> over the lines: the first exception ends the run.\<close>

fun processCommands :: "run_state \<Rightarrow> string list \<Rightarrow> error + run_state" where
  "processCommands st [] = Inr st"
| "processCommands st (l # ls) =
     (case processCommand st l of
        Inl e \<Rightarrow> Inl e
      | Inr st' \<Rightarrow> processCommands st' ls)"

section \<open>The bill\<close>

text \<open>
  The six lines of \<^verbatim>\<open>printBill\<close>, as the values they print (the formatting with
  \<^verbatim>\<open>toFixed(2)\<close> is left out), with the cart after the last call.
\<close>

record Bill =
  SUB_TOTAL :: jsnum
  TOTAL_PRO_DISCOUNT :: jsnum
  PRO_MEMBERSHIP_FEE_line :: jsnum
  ENROLLMENT_FEE :: jsnum
  COUPON_DISCOUNT_label :: "string option"
  COUPON_DISCOUNT :: jsnum
  TOTAL :: jsnum

definition printBill :: "GeekdemyCart \<Rightarrow> error + (Bill \<times> GeekdemyCart)" where
  "printBill c =
     (case calculateSubtotal c of (sub, c1) \<Rightarrow>
       (case calculateProMembershipDiscount c1 of Inl e \<Rightarrow> Inl e | Inr (pd, c2) \<Rightarrow>
         (case calculateEnrollmentFee c2 of Inl e \<Rightarrow> Inl e | Inr (ef, c3) \<Rightarrow>
           (case calculateDiscount c3 of Inl e \<Rightarrow> Inl e | Inr (d, c4) \<Rightarrow>
             (case calculateTotalFare c4 of Inl e \<Rightarrow> Inl e | Inr (t, c5) \<Rightarrow>
                Inr (\<lparr>SUB_TOTAL = sub, TOTAL_PRO_DISCOUNT = pd,
                      PRO_MEMBERSHIP_FEE_line = getProMembershipFee c2, ENROLLMENT_FEE = ef,
                      COUPON_DISCOUNT_label = getAppliedCoupon c3, COUPON_DISCOUNT = d,
                      TOTAL = t\<rparr>, c5))))))"

section \<open>The run\<close>

text \<open>
  \<^verbatim>\<open>main\<close> builds the cart with its three default strategies, the counter starts at 0,
  the text of the file is cut at the line feeds, carriage returns are dropped from each
  line, the lines are processed and the bill is printed.
\<close>

definition main_cart :: GeekdemyCart where
  "main_cart =
     setProMembershipStrategy
       (setEnrollmentStrategy (setDiscountStrategy new_GeekdemyCart B4G1Discount)
          DefaultEnrollmentStrategy)
       ProMembershipDiscount"

definition initial_state :: run_state where
  "initial_state = \<lparr>cart = main_cart, count = Fin 0\<rparr>"

definition cleanLines :: "string \<Rightarrow> string list" where
  "cleanLines data = map (filter (\<lambda>ch. ch \<noteq> CHR 0x0D)) (split_on (CHR 0x0A) data)"

definition main :: "string \<Rightarrow> error + (Bill \<times> GeekdemyCart)" where
  "main data =
     (case processCommands initial_state (cleanLines data) of
        Inl e \<Rightarrow> Inl e
      | Inr st \<Rightarrow> printBill (cart st))"

section \<open>Notions the properties are stated with\<close>

text \<open>
  The amount both \<^verbatim>\<open>calculateDiscount\<close> and \<^verbatim>\<open>calculateTotalFare\<close> compute before the
  discount, from the fields of the cart.
\<close>

definition before_discount :: "GeekdemyCart \<Rightarrow> jsnum" where
  "before_discount c =
     js_sub (js_add (js_add (subtotal c) (enrollmentFee c)) (proMembershipFee c))
       (proMembershipDiscount c)"

text \<open>The unit prices of the three programmes of the table.\<close>

definition unit_price :: "jsnum \<Rightarrow> bool" where
  "unit_price m = (m = Fin 2500 \<or> m = Fin 3000 \<or> m = Fin 5000)"

text \<open>
  \<open>m\<close> is the minimum single-unit price among the discountable programmes of a list:
  it is the unit price of one of them, and none of them has a smaller one.
\<close>

definition spec_minimum_unit_price :: "Programme list \<Rightarrow> jsnum \<Rightarrow> bool" where
  "spec_minimum_unit_price ps m =
     ((\<exists>p \<in> set ps. isDiscountableProgramme (ptype p) \<and> getSingleCost p = m)
      \<and> (\<forall>p \<in> set ps. isDiscountableProgramme (ptype p) \<longrightarrow> js_ge (getSingleCost p) m))"

text \<open>The sum over the items of unit price times quantity.\<close>

definition spec_subtotal :: "Programme list \<Rightarrow> jsnum" where
  "spec_subtotal ps = js_sum (map (\<lambda>p. js_mul (single_cost (ptype p)) (quantity p)) ps)"

text \<open>The membership discount: the sum over the items of discount rate times cost when membership is active, 0 when it is not.\<close>

definition spec_membership_discount :: "bool \<Rightarrow> Programme list \<Rightarrow> jsnum" where
  "spec_membership_discount active ps =
     (if active
      then js_sum (map (\<lambda>p. js_mul (discount_rate (ptype p))
                              (js_mul (single_cost (ptype p)) (quantity p))) ps)
      else Fin 0)"

text \<open>The enrollment fee of a subtotal.\<close>

definition spec_enrollment_fee :: "jsnum \<Rightarrow> jsnum" where
  "spec_enrollment_fee s = (if js_lt s (Fin 6666) then Fin 500 else Fin 0)"

text \<open>What \<^verbatim>\<open>calculateProMembershipDiscount\<close> returns: the sum anew when the fee is positive, the stored field otherwise.\<close>

definition membership_discount_now :: "GeekdemyCart \<Rightarrow> jsnum" where
  "membership_discount_now c =
     (if js_gt (proMembershipFee c) (Fin 0)
      then spec_membership_discount True (programmes c)
      else proMembershipDiscount c)"

text \<open>The discount both \<^verbatim>\<open>calculateDiscount\<close> and \<^verbatim>\<open>calculateTotalFare\<close> choose, or the exception of the strategy.\<close>

definition selected_discount :: "GeekdemyCart \<Rightarrow> error + jsnum" where
  "selected_discount c =
     (if js_ge (totalDiscountableQuantity c) MIN_DISCOUNTABLE_QUANTITY
      then Inr (calculateMinimumDiscountableProgrammeCost c)
      else (case discountStrategy c of
              None \<Rightarrow> Inl TypeError
            | Some s \<Rightarrow> DiscountStrategy_calculateDiscount s (before_discount c)))"

text \<open>The cart after the first three calls of \<^verbatim>\<open>printBill\<close>.\<close>

definition refreshed :: "GeekdemyCart \<Rightarrow> GeekdemyCart" where
  "refreshed c =
     c\<lparr>subtotal := spec_subtotal (programmes c),
       proMembershipDiscount := membership_discount_now c,
       enrollmentFee := spec_enrollment_fee (spec_subtotal (programmes c))\<rparr>"

text \<open>Two carts with the same programmes, strategies, membership fee and coupon label: they differ at most in the stored results.\<close>

definition same_inputs :: "GeekdemyCart \<Rightarrow> GeekdemyCart \<Rightarrow> bool" where
  "same_inputs c c' =
     (programmes c' = programmes c \<and> discountStrategy c' = discountStrategy c
      \<and> enrollmentStrategy c' = enrollmentStrategy c
      \<and> proMembershipStrategy c' = proMembershipStrategy c
      \<and> proMembershipFee c' = proMembershipFee c \<and> appliedCoupon c' = appliedCoupon c)"

text \<open>The stored membership discount is 0 as long as no membership fee is charged.\<close>

definition membership_cache_ok :: "GeekdemyCart \<Rightarrow> bool" where
  "membership_cache_ok c = (js_gt (proMembershipFee c) (Fin 0) \<or> proMembershipDiscount c = Fin 0)"

text \<open>The first token of a command line, on which \<^verbatim>\<open>processCommand\<close> switches.\<close>

definition command_name :: "string \<Rightarrow> string option" where
  "command_name l = token_at (split_on CHR '' '' l) 0"

text \<open>The programme a command line adds to the cart: one for \<^verbatim>\<open>ADD_PROGRAMME\<close> with three tokens, none otherwise.\<close>

definition line_programme :: "string \<Rightarrow> Programme list" where
  "line_programme l =
     (let tokens = split_on CHR '' '' l
      in if command_name l = Some ''ADD_PROGRAMME'' \<and> length tokens = 3
         then [\<lparr>ptype = ProgrammeType_lookup (tokens ! 1), quantity = parseInt (tokens ! 2)\<rparr>]
         else [])"

text \<open>The programmes the lines of a run add, in their order.\<close>

definition added_programmes :: "string list \<Rightarrow> Programme list" where
  "added_programmes ls = concat (map line_programme ls)"

text \<open>The line is the membership command.\<close>

definition is_membership_command :: "string \<Rightarrow> bool" where
  "is_membership_command l = (command_name l = Some ''PRO_MEMBERSHIP'')"

text \<open>The enrollment and membership strategies that \<^verbatim>\<open>main\<close> installs are in place.\<close>

definition strategies_installed :: "GeekdemyCart \<Rightarrow> bool" where
  "strategies_installed c =
     (enrollmentStrategy c = Some DefaultEnrollmentStrategy
      \<and> proMembershipStrategy c = Some ProMembershipDiscount)"

section \<open>Sums and minima\<close>

lemma js_add_assoc: "js_add (js_add x y) z = js_add x (js_add y z)"
  by (cases x; cases y; cases z; simp)

lemma js_add_zero_left: "js_add (Fin 0) x = x"
  by (cases x; simp)

lemma js_add_zero_right: "js_add x (Fin 0) = x"
  by (cases x; simp)

lemma foldl_js_add: "foldl (\<lambda>sum p. js_add sum (f p)) a ps = js_add a (js_sum (map f ps))"
proof (induction ps arbitrary: a)
  case Nil
  show ?case by (simp add: js_add_zero_right)
next
  case (Cons p ps)
  show ?case by (simp add: Cons.IH js_add_assoc)
qed

lemma reduce_sum: "foldl (\<lambda>sum p. js_add sum (f p)) (Fin 0) ps = js_sum (map f ps)"
  by (simp add: foldl_js_add js_add_zero_left)

lemma js_sum_append: "js_sum (xs @ ys) = js_add (js_sum xs) (js_sum ys)"
  by (induction xs) (simp_all add: js_add_zero_left js_add_assoc)

lemma discountable_unit_price:
  "isDiscountableProgramme (ptype p) \<Longrightarrow> unit_price (getSingleCost p)"
  by (cases "ptype p") (simp_all add: isDiscountableProgramme_def unit_price_def getSingleCost_def)

lemma Math_min_cases:
  "unit_price b \<Longrightarrow> a = PosInf \<or> unit_price a \<Longrightarrow>
     unit_price (Math_min a b) \<and> (Math_min a b = a \<or> Math_min a b = b)
     \<and> js_ge b (Math_min a b) \<and> (a = PosInf \<or> js_ge a (Math_min a b))"
  by (auto simp: unit_price_def Math_min_def js_ge_def)

lemma js_ge_trans_unit: "unit_price a \<Longrightarrow> unit_price b \<Longrightarrow> unit_price c \<Longrightarrow> js_ge a b \<Longrightarrow> js_ge b c \<Longrightarrow> js_ge a c"
  by (auto simp: unit_price_def js_ge_def)

lemma js_ge_refl_unit: "unit_price a \<Longrightarrow> js_ge a a"
  by (auto simp: unit_price_def js_ge_def)

lemma min_fold:
  assumes "\<forall>p \<in> set ps. unit_price (getSingleCost p)" and "a = PosInf \<or> unit_price a"
  defines "m \<equiv> foldl (\<lambda>minCost p. Math_min minCost (getSingleCost p)) a ps"
  shows "(m = a \<or> (\<exists>p \<in> set ps. getSingleCost p = m))
       \<and> (\<forall>p \<in> set ps. js_ge (getSingleCost p) m)
       \<and> (a = PosInf \<or> js_ge a m)
       \<and> (ps \<noteq> [] \<or> unit_price a \<longrightarrow> unit_price m)"
  using assms(1,2) unfolding m_def
proof (induction ps arbitrary: a)
  case Nil
  then show ?case by (auto simp: js_ge_refl_unit)
next
  case (Cons p ps)
  let ?a = "Math_min a (getSingleCost p)"
  let ?m = "foldl (\<lambda>minCost p. Math_min minCost (getSingleCost p)) ?a ps"
  have up: "unit_price (getSingleCost p)" using Cons.prems(1) by simp
  note mc = Math_min_cases [OF up Cons.prems(2)]
  have ua: "unit_price ?a" using mc by simp
  have rest: "\<forall>q \<in> set ps. unit_price (getSingleCost q)" using Cons.prems(1) by simp
  note ih = Cons.IH [OF rest disjI2 [OF ua]]
  have um: "unit_price ?m" using ih ua by simp
  have am: "js_ge ?a ?m" using ih ua by (auto simp: unit_price_def)
  have pm: "js_ge (getSingleCost p) ?m"
    using js_ge_trans_unit [OF up ua um] mc am by simp
  have a_m: "a = PosInf \<or> js_ge a ?m"
  proof (cases "a = PosInf")
    case True then show ?thesis by simp
  next
    case False
    then have "unit_price a" using Cons.prems(2) by simp
    then show ?thesis using js_ge_trans_unit [OF _ ua um] mc am False by simp
  qed
  have src: "?m = a \<or> (\<exists>q \<in> set (p # ps). getSingleCost q = ?m)"
    using ih mc by auto
  show ?case using src ih pm a_m um by simp
qed

lemma quantity_sum_nonempty:
  "js_ge (foldl (\<lambda>sum p. js_add sum (quantity p)) (Fin 0) ps) MIN_DISCOUNTABLE_QUANTITY \<Longrightarrow> ps \<noteq> []"
  by (auto simp: js_ge_def MIN_DISCOUNTABLE_QUANTITY_def)

lemma minimum_cost_spec:
  assumes "js_ge (totalDiscountableQuantity c) MIN_DISCOUNTABLE_QUANTITY"
  shows "spec_minimum_unit_price (programmes c) (calculateMinimumDiscountableProgrammeCost c)"
    and "unit_price (calculateMinimumDiscountableProgrammeCost c)"
proof -
  let ?ps = "filter (\<lambda>p. isDiscountableProgramme (ptype p)) (programmes c)"
  have ne: "?ps \<noteq> []"
    using assms quantity_sum_nonempty unfolding totalDiscountableQuantity_def by blast
  have all: "\<forall>p \<in> set ?ps. unit_price (getSingleCost p)"
    by (simp add: discountable_unit_price)
  have init: "PosInf = PosInf \<or> unit_price PosInf" by simp
  note mf = min_fold [OF all init]
  show u: "unit_price (calculateMinimumDiscountableProgrammeCost c)"
    using mf ne unfolding calculateMinimumDiscountableProgrammeCost_def by simp
  have "calculateMinimumDiscountableProgrammeCost c \<noteq> PosInf"
    using u by (auto simp: unit_price_def)
  then show "spec_minimum_unit_price (programmes c) (calculateMinimumDiscountableProgrammeCost c)"
    using mf unfolding calculateMinimumDiscountableProgrammeCost_def spec_minimum_unit_price_def
    by auto
qed

section \<open>The discount of a cart\<close>

lemma override_discount:
  assumes "js_ge (totalDiscountableQuantity c) MIN_DISCOUNTABLE_QUANTITY"
  shows "calculateDiscount c =
           Inr (calculateMinimumDiscountableProgrammeCost c,
                c\<lparr>discount := calculateMinimumDiscountableProgrammeCost c\<rparr>)"
    and "calculateTotalFare c =
           Inr (js_sub (before_discount c) (calculateMinimumDiscountableProgrammeCost c),
                c\<lparr>discount := calculateMinimumDiscountableProgrammeCost c\<rparr>)"
  using assms unfolding calculateDiscount_def calculateTotalFare_def before_discount_def Let_def
  by simp_all

lemma policy_discount:
  assumes "\<not> js_ge (totalDiscountableQuantity c) MIN_DISCOUNTABLE_QUANTITY"
  shows "calculateDiscount c =
           (case discountStrategy c of
              None \<Rightarrow> Inl TypeError
            | Some s \<Rightarrow>
                (case DiscountStrategy_calculateDiscount s (before_discount c) of
                   Inl e \<Rightarrow> Inl e
                 | Inr d \<Rightarrow> Inr (d, c\<lparr>discount := d\<rparr>)))"
    and "calculateTotalFare c =
           (case discountStrategy c of
              None \<Rightarrow> Inl TypeError
            | Some s \<Rightarrow>
                (case DiscountStrategy_calculateDiscount s (before_discount c) of
                   Inl e \<Rightarrow> Inl e
                 | Inr d \<Rightarrow> Inr (js_sub (before_discount c) d, c\<lparr>discount := d\<rparr>)))"
  using assms unfolding calculateDiscount_def calculateTotalFare_def before_discount_def Let_def
  by simp_all

lemma totalDiscountableQuantity_sum:
  "totalDiscountableQuantity c =
     js_sum (map quantity (filter (\<lambda>p. isDiscountableProgramme (ptype p)) (programmes c)))"
  by (simp add: totalDiscountableQuantity_def reduce_sum)

lemma totalDiscountableQuantity_strategy [simp]:
  "totalDiscountableQuantity (c\<lparr>discountStrategy := s\<rparr>) = totalDiscountableQuantity c"
  by (simp add: totalDiscountableQuantity_def)

lemma minimum_cost_strategy [simp]:
  "calculateMinimumDiscountableProgrammeCost (c\<lparr>discountStrategy := s\<rparr>)
     = calculateMinimumDiscountableProgrammeCost c"
  by (simp add: calculateMinimumDiscountableProgrammeCost_def)

lemma real_strategy_returns:
  assumes "s = B4G1Discount \<or> s = DealG20Discount \<or> s = DealG5Discount"
  shows "\<exists>d. DiscountStrategy_calculateDiscount s x = Inr d"
  using assms by auto

section \<open>What the calculations return\<close>

lemma calculateSubtotal_eq:
  "calculateSubtotal c = (spec_subtotal (programmes c), c\<lparr>subtotal := spec_subtotal (programmes c)\<rparr>)"
  by (simp add: Let_def calculateSubtotal_def spec_subtotal_def reduce_sum getCost_def getSingleCost_def)

lemma calculateProMembershipDiscount_eq:
  assumes "proMembershipStrategy c = Some ms"
  shows "calculateProMembershipDiscount c =
           Inr (membership_discount_now c, c\<lparr>proMembershipDiscount := membership_discount_now c\<rparr>)"
  using assms
  by (cases ms)
     (simp add: Let_def calculateProMembershipDiscount_def membership_discount_now_def
        spec_membership_discount_def reduce_sum getCost_def getSingleCost_def getDiscountRate_def)

lemma calculateEnrollmentFee_eq:
  assumes "enrollmentStrategy c = Some es"
  shows "calculateEnrollmentFee c =
           Inr (spec_enrollment_fee (subtotal c), c\<lparr>enrollmentFee := spec_enrollment_fee (subtotal c)\<rparr>)"
  using assms
  by (cases es)
     (simp add: Let_def calculateEnrollmentFee_def spec_enrollment_fee_def
        DEFAULT_ENROLLMENT_FEE_THRESHOLD_def DEFAULT_ENROLLMENT_FEE_def)

lemma calculateDiscount_eq:
  "calculateDiscount c =
     (case selected_discount c of Inl e \<Rightarrow> Inl e | Inr d \<Rightarrow> Inr (d, c\<lparr>discount := d\<rparr>))"
  unfolding calculateDiscount_def selected_discount_def before_discount_def Let_def
  by (simp split: option.splits sum.splits)

lemma calculateTotalFare_eq:
  "calculateTotalFare c =
     (case selected_discount c of
        Inl e \<Rightarrow> Inl e
      | Inr d \<Rightarrow> Inr (js_sub (before_discount c) d, c\<lparr>discount := d\<rparr>))"
  unfolding calculateTotalFare_def selected_discount_def before_discount_def Let_def
  by (simp split: option.splits sum.splits)

lemma before_discount_discount [simp]:
  "before_discount (c\<lparr>discount := d\<rparr>) = before_discount c"
  by (simp add: before_discount_def)

lemma selected_discount_discount [simp]:
  "selected_discount (c\<lparr>discount := d\<rparr>) = selected_discount c"
  by (simp add: selected_discount_def totalDiscountableQuantity_def
      calculateMinimumDiscountableProgrammeCost_def split: option.splits)

lemma selected_discount_returns:
  assumes "discountStrategy c = Some s"
    and "s = B4G1Discount \<or> s = DealG20Discount \<or> s = DealG5Discount"
  shows "\<exists>d. selected_discount c = Inr d"
  using assms real_strategy_returns [OF assms(2)] by (simp add: selected_discount_def)

lemma printBill_eq:
  assumes "enrollmentStrategy c = Some es" and "proMembershipStrategy c = Some ms"
  shows "printBill c =
     (case selected_discount (refreshed c) of
        Inl e \<Rightarrow> Inl e
      | Inr d \<Rightarrow>
          Inr (\<lparr>SUB_TOTAL = spec_subtotal (programmes c),
                TOTAL_PRO_DISCOUNT = membership_discount_now c,
                PRO_MEMBERSHIP_FEE_line = proMembershipFee c,
                ENROLLMENT_FEE = spec_enrollment_fee (spec_subtotal (programmes c)),
                COUPON_DISCOUNT_label = appliedCoupon c,
                COUPON_DISCOUNT = d,
                TOTAL = js_sub (before_discount (refreshed c)) d\<rparr>,
               (refreshed c)\<lparr>discount := d\<rparr>))"
proof -
  let ?c1 = "c\<lparr>subtotal := spec_subtotal (programmes c)\<rparr>"
  let ?c2 = "?c1\<lparr>proMembershipDiscount := membership_discount_now c\<rparr>"
  let ?c3 = "?c2\<lparr>enrollmentFee := spec_enrollment_fee (spec_subtotal (programmes c))\<rparr>"
  have s1: "calculateSubtotal c = (spec_subtotal (programmes c), ?c1)"
    by (rule calculateSubtotal_eq)
  have m1: "membership_discount_now ?c1 = membership_discount_now c"
    by (simp add: membership_discount_now_def)
  have s2: "calculateProMembershipDiscount ?c1 = Inr (membership_discount_now c, ?c2)"
    using calculateProMembershipDiscount_eq [of ?c1 ms] assms(2) m1 by simp
  have s3: "calculateEnrollmentFee ?c2 =
      Inr (spec_enrollment_fee (spec_subtotal (programmes c)), ?c3)"
    using calculateEnrollmentFee_eq [of ?c2 es] assms(1) by simp
  have r: "?c3 = refreshed c" by (simp add: refreshed_def)
  show ?thesis
    unfolding printBill_def s1 prod.case s2 sum.case s3 r calculateDiscount_eq
    by (cases "selected_discount (refreshed c)")
       (simp_all add: calculateTotalFare_eq getProMembershipFee_def getAppliedCoupon_def refreshed_def)
qed

lemma refreshed_fields [simp]:
  "programmes (refreshed c) = programmes c"
  "discountStrategy (refreshed c) = discountStrategy c"
  "enrollmentStrategy (refreshed c) = enrollmentStrategy c"
  "proMembershipStrategy (refreshed c) = proMembershipStrategy c"
  "proMembershipFee (refreshed c) = proMembershipFee c"
  "appliedCoupon (refreshed c) = appliedCoupon c"
  "subtotal (refreshed c) = spec_subtotal (programmes c)"
  "enrollmentFee (refreshed c) = spec_enrollment_fee (spec_subtotal (programmes c))"
  "proMembershipDiscount (refreshed c) = membership_discount_now c"
  by (simp_all add: refreshed_def)

lemma totalDiscountableQuantity_refreshed [simp]:
  "totalDiscountableQuantity (refreshed c) = totalDiscountableQuantity c"
  by (simp add: totalDiscountableQuantity_def)

lemma minimum_cost_refreshed [simp]:
  "calculateMinimumDiscountableProgrammeCost (refreshed c)
     = calculateMinimumDiscountableProgrammeCost c"
  by (simp add: calculateMinimumDiscountableProgrammeCost_def)

lemma before_discount_refreshed:
  "before_discount (refreshed c) =
     js_sub (js_add (js_add (spec_subtotal (programmes c))
                       (spec_enrollment_fee (spec_subtotal (programmes c))))
               (proMembershipFee c))
       (membership_discount_now c)"
  by (simp add: before_discount_def)

lemma printBill_returns:
  assumes "enrollmentStrategy c = Some es" and "proMembershipStrategy c = Some ms"
    and "discountStrategy c = Some s"
    and "s = B4G1Discount \<or> s = DealG20Discount \<or> s = DealG5Discount"
  shows "\<exists>b c'. printBill c = Inr (b, c')"
proof -
  obtain d where d: "selected_discount (refreshed c) = Inr d"
    using selected_discount_returns [of "refreshed c" s] assms(3,4) by auto
  show ?thesis unfolding printBill_eq [OF assms(1,2)] d by simp
qed

lemma printBill_fee_line:
  assumes "strategies_installed c" and "printBill c = Inr (b, c')"
  shows "PRO_MEMBERSHIP_FEE_line b = proMembershipFee c"
    and "TOTAL_PRO_DISCOUNT b = membership_discount_now c"
    and "TOTAL b =
           js_sub (js_sub (js_add (js_add (SUB_TOTAL b) (ENROLLMENT_FEE b)) (proMembershipFee c))
                     (TOTAL_PRO_DISCOUNT b))
             (COUPON_DISCOUNT b)"
proof -
  have es: "enrollmentStrategy c = Some DefaultEnrollmentStrategy"
    and ms: "proMembershipStrategy c = Some ProMembershipDiscount"
    using assms(1) by (simp_all add: strategies_installed_def)
  from assms(2) obtain d where
    b: "b = \<lparr>SUB_TOTAL = spec_subtotal (programmes c),
                TOTAL_PRO_DISCOUNT = membership_discount_now c,
                PRO_MEMBERSHIP_FEE_line = proMembershipFee c,
                ENROLLMENT_FEE = spec_enrollment_fee (spec_subtotal (programmes c)),
                COUPON_DISCOUNT_label = appliedCoupon c,
                COUPON_DISCOUNT = d,
                TOTAL = js_sub (before_discount (refreshed c)) d\<rparr>"
    unfolding printBill_eq [OF es ms]
    by (cases "selected_discount (refreshed c)") auto
  show "PRO_MEMBERSHIP_FEE_line b = proMembershipFee c" by (simp add: b)
  show "TOTAL_PRO_DISCOUNT b = membership_discount_now c" by (simp add: b)
  show "TOTAL b =
           js_sub (js_sub (js_add (js_add (SUB_TOTAL b) (ENROLLMENT_FEE b)) (proMembershipFee c))
                     (TOTAL_PRO_DISCOUNT b))
             (COUPON_DISCOUNT b)"
    by (simp add: b before_discount_refreshed)
qed

section \<open>What the calculations leave alone\<close>

lemma calculateSubtotal_same_inputs: "same_inputs c (snd (calculateSubtotal c))"
  by (simp add: calculateSubtotal_eq same_inputs_def)

lemma calculateProMembershipDiscount_same_inputs:
  "calculateProMembershipDiscount c = Inr (v, c') \<Longrightarrow> same_inputs c c'"
  by (auto simp: calculateProMembershipDiscount_def same_inputs_def Let_def
      split: if_splits option.splits)

lemma calculateEnrollmentFee_same_inputs:
  "calculateEnrollmentFee c = Inr (v, c') \<Longrightarrow> same_inputs c c'"
  by (auto simp: calculateEnrollmentFee_def same_inputs_def Let_def split: option.splits)

lemma calculateDiscount_same_inputs:
  "calculateDiscount c = Inr (v, c') \<Longrightarrow> same_inputs c c'"
  by (auto simp: calculateDiscount_eq same_inputs_def split: sum.splits)

lemma calculateTotalFare_same_inputs:
  "calculateTotalFare c = Inr (v, c') \<Longrightarrow> same_inputs c c'"
  by (auto simp: calculateTotalFare_eq same_inputs_def split: sum.splits)

lemma refreshed_again:
  "refreshed ((refreshed c)\<lparr>discount := d\<rparr>) = (refreshed c)\<lparr>discount := d\<rparr>"
  by (simp add: refreshed_def membership_discount_now_def)

lemma printBill_again:
  assumes "enrollmentStrategy c = Some es" and "proMembershipStrategy c = Some ms"
    and "printBill c = Inr (b, c')"
  shows "printBill c' = Inr (b, c')" and "same_inputs c c'"
proof -
  obtain d where d: "selected_discount (refreshed c) = Inr d"
    and c': "c' = (refreshed c)\<lparr>discount := d\<rparr>"
    and b: "b = \<lparr>SUB_TOTAL = spec_subtotal (programmes c),
                TOTAL_PRO_DISCOUNT = membership_discount_now c,
                PRO_MEMBERSHIP_FEE_line = proMembershipFee c,
                ENROLLMENT_FEE = spec_enrollment_fee (spec_subtotal (programmes c)),
                COUPON_DISCOUNT_label = appliedCoupon c,
                COUPON_DISCOUNT = d,
                TOTAL = js_sub (before_discount (refreshed c)) d\<rparr>"
    using assms(3) unfolding printBill_eq [OF assms(1,2)]
    by (cases "selected_discount (refreshed c)") auto
  show "same_inputs c c'" by (simp add: c' same_inputs_def)
  have e: "enrollmentStrategy c' = Some es" and m: "proMembershipStrategy c' = Some ms"
    using assms(1,2) by (simp_all add: c')
  have r: "refreshed c' = c'" unfolding c' by (rule refreshed_again)
  have mdn: "membership_discount_now ((refreshed c)\<lparr>discount := d\<rparr>) = membership_discount_now c"
    by (cases "js_gt (proMembershipFee c) (Fin 0)")
       (simp_all add: membership_discount_now_def refreshed_def)
  show "printBill c' = Inr (b, c')"
    unfolding printBill_eq [OF e m] r
    by (simp add: c' d b mdn)
qed

lemma printBill_same_inputs:
  assumes "same_inputs c c2" and "membership_cache_ok c" and "membership_cache_ok c2"
    and "enrollmentStrategy c = Some es" and "proMembershipStrategy c = Some ms"
  shows "map_sum id fst (printBill c2) = map_sum id fst (printBill c)"
proof -
  have f: "programmes c2 = programmes c" "discountStrategy c2 = discountStrategy c"
    "enrollmentStrategy c2 = Some es" "proMembershipStrategy c2 = Some ms"
    "proMembershipFee c2 = proMembershipFee c" "appliedCoupon c2 = appliedCoupon c"
    using assms(1,4,5) by (simp_all add: same_inputs_def)
  have mdn: "membership_discount_now c2 = membership_discount_now c"
    using assms(2,3) f by (auto simp: membership_discount_now_def membership_cache_ok_def)
  have bd: "before_discount (refreshed c2) = before_discount (refreshed c)"
    by (simp add: before_discount_refreshed f mdn)
  have sd: "selected_discount (refreshed c2) = selected_discount (refreshed c)"
    unfolding selected_discount_def bd
    by (simp add: f totalDiscountableQuantity_def calculateMinimumDiscountableProgrammeCost_def)
  show ?thesis
    unfolding printBill_eq [OF assms(4,5)] printBill_eq [OF f(3,4)] sd
    by (cases "selected_discount (refreshed c)") (simp_all add: f mdn bd)
qed

lemma membership_discount_now_spec:
  assumes "membership_cache_ok c"
  shows "membership_discount_now c =
           spec_membership_discount (js_gt (proMembershipFee c) (Fin 0)) (programmes c)"
  using assms
  by (auto simp: membership_discount_now_def membership_cache_ok_def spec_membership_discount_def)

section \<open>The first cart\<close>

lemma main_cart_fields [simp]:
  "programmes main_cart = []"
  "discountStrategy main_cart = Some B4G1Discount"
  "enrollmentStrategy main_cart = Some DefaultEnrollmentStrategy"
  "proMembershipStrategy main_cart = Some ProMembershipDiscount"
  "proMembershipFee main_cart = Fin 0"
  "proMembershipDiscount main_cart = Fin 0"
  "appliedCoupon main_cart = None"
  by (simp_all add: main_cart_def new_GeekdemyCart_def setProMembershipStrategy_def
      setEnrollmentStrategy_def setDiscountStrategy_def)

lemma initial_state_fields [simp]:
  "cart initial_state = main_cart" "count initial_state = Fin 0"
  by (simp_all add: initial_state_def)

lemma initial_state_installed: "strategies_installed (cart initial_state)"
  by (simp add: initial_state_def strategies_installed_def)

lemma main_cart_cache_ok: "membership_cache_ok main_cart"
  by (simp add: membership_cache_ok_def)

section \<open>Commands, one at a time\<close>

lemma applyProMembershipCoupon_eq:
  assumes "proMembershipStrategy c = Some ms"
  shows "applyProMembershipCoupon c =
           Inr (c\<lparr>proMembershipDiscount := membership_discount_now c,
                  proMembershipStrategy := Some ProMembershipDiscount,
                  proMembershipFee := Fin 200\<rparr>)"
  unfolding applyProMembershipCoupon_def calculateProMembershipDiscount_eq [OF assms]
  by (simp add: addProMembershipFee_def setProMembershipStrategy_def PRO_MEMBERSHIP_FEE_def)

lemma applyProMembershipCoupon_frame:
  assumes "applyProMembershipCoupon c = Inr c'"
  shows "appliedCoupon c' = appliedCoupon c" "discountStrategy c' = discountStrategy c"
  using assms
  by (auto simp: applyProMembershipCoupon_def calculateProMembershipDiscount_def
      addProMembershipFee_def setProMembershipStrategy_def Let_def
      split: sum.splits if_splits option.splits)

lemma applyOtherCoupon_frame:
  assumes "applyOtherCoupon c coupon = Inr c'"
  shows "programmes c' = programmes c" "enrollmentStrategy c' = enrollmentStrategy c"
    "proMembershipStrategy c' = proMembershipStrategy c"
    "proMembershipFee c' = proMembershipFee c"
    "proMembershipDiscount c' = proMembershipDiscount c"
  using assms
  by (auto simp: applyOtherCoupon_def setAppliedCoupon_def setDiscountStrategy_def
      split: option.splits)

lemma applyCoupon_frame:
  assumes "applyCoupon st tokens = Inr st'"
  shows "count st' = count st" "programmes (cart st') = programmes (cart st)"
    "enrollmentStrategy (cart st') = enrollmentStrategy (cart st)"
    "proMembershipStrategy (cart st') = proMembershipStrategy (cart st)"
    "proMembershipFee (cart st') = proMembershipFee (cart st)"
    "proMembershipDiscount (cart st') = proMembershipDiscount (cart st)"
  using assms applyOtherCoupon_frame [of "cart st" "token_at tokens 1"]
  by (auto simp: applyCoupon_def setAppliedCoupon_def split: if_splits sum.splits)

lemma applyCoupon_applied:
  assumes "getAppliedCoupon (cart st) = Some l"
  shows "applyCoupon st tokens = Inr st"
  using assms by (simp add: applyCoupon_def)

lemma discountStrategies_length:
  "discountStrategies k = Some s \<Longrightarrow> length k \<noteq> 4"
  by (auto simp: discountStrategies_def split: if_splits)

lemma applyOtherCoupon_label:
  assumes "applyOtherCoupon c coupon = Inr c'" and "appliedCoupon c = None"
  shows "appliedCoupon c' \<noteq> Some ''B4G1''"
proof (cases coupon)
  case None
  then show ?thesis using assms by (simp add: applyOtherCoupon_def)
next
  case (Some cp)
  show ?thesis
  proof (cases "discountStrategies (toLowerCase cp)")
    case None
    then show ?thesis using assms Some by (simp add: applyOtherCoupon_def)
  next
    case (Some s)
    from discountStrategies_length [OF this] have "length cp \<noteq> 4"
      by (simp add: toLowerCase_def)
    then have "toUpperCase cp \<noteq> ''B4G1''"
      by (auto simp: toUpperCase_def)
    then show ?thesis
      using assms \<open>coupon = Some cp\<close> Some
      by (auto simp: applyOtherCoupon_def setAppliedCoupon_def)
  qed
qed

lemma processCommand_cases:
  "processCommand st l =
     (if command_name l = Some ''ADD_PROGRAMME''
      then Inr (addProgramme st (split_on CHR '' '' l))
      else if command_name l = Some ''PRO_MEMBERSHIP''
      then (case applyProMembershipCoupon (cart st) of
              Inl e \<Rightarrow> Inl e
            | Inr c \<Rightarrow> Inr (st\<lparr>cart := c\<rparr>))
      else if command_name l = Some ''APPLY_COUPON'' then applyCoupon st (split_on CHR '' '' l)
      else Inr st)"
  unfolding processCommand_def command_name_def Let_def
  by (cases "token_at (split_on CHR '' '' l) 0") simp_all

lemma addProgramme_eq:
  assumes "command_name l = Some ''ADD_PROGRAMME''"
  shows "addProgramme st (split_on CHR '' '' l) =
           \<lparr>cart = (cart st)\<lparr>programmes := programmes (cart st) @ line_programme l\<rparr>,
            count = js_add (count st) (js_sum (map quantity (line_programme l)))\<rparr>"
  using assms
  by (simp add: addProgramme_def line_programme_def addProgramme_cart_def Let_def
      js_add_zero_right)

lemma line_programme_other:
  "command_name l \<noteq> Some ''ADD_PROGRAMME'' \<Longrightarrow> line_programme l = []"
  by (simp add: line_programme_def)

lemma processCommand_step:
  assumes "processCommand st l = Inr st'" and "strategies_installed (cart st)"
  shows "strategies_installed (cart st')
       \<and> programmes (cart st') = programmes (cart st) @ line_programme l
       \<and> count st' = js_add (count st) (js_sum (map quantity (line_programme l)))
       \<and> proMembershipFee (cart st') =
           (if is_membership_command l then Fin 200 else proMembershipFee (cart st))
       \<and> (membership_cache_ok (cart st) \<longrightarrow> membership_cache_ok (cart st'))"
proof -
  consider (add) "command_name l = Some ''ADD_PROGRAMME''"
    | (pro) "command_name l = Some ''PRO_MEMBERSHIP''"
    | (coupon) "command_name l = Some ''APPLY_COUPON''"
    | (other) "command_name l \<noteq> Some ''ADD_PROGRAMME''"
        "command_name l \<noteq> Some ''PRO_MEMBERSHIP''" "command_name l \<noteq> Some ''APPLY_COUPON''"
    by blast
  then show ?thesis
  proof cases
    case add
    then have "st' = addProgramme st (split_on CHR '' '' l)"
      using assms(1) by (simp add: processCommand_cases)
    then show ?thesis
      using assms(2) add
      by (simp add: addProgramme_eq [OF add] strategies_installed_def is_membership_command_def
          membership_cache_ok_def)
  next
    case pro
    have ms: "proMembershipStrategy (cart st) = Some ProMembershipDiscount"
      using assms(2) by (simp add: strategies_installed_def)
    have "st' = st\<lparr>cart := (cart st)\<lparr>proMembershipDiscount := membership_discount_now (cart st),
                  proMembershipStrategy := Some ProMembershipDiscount,
                  proMembershipFee := Fin 200\<rparr>\<rparr>"
      using assms(1) pro by (simp add: processCommand_cases applyProMembershipCoupon_eq [OF ms])
    then show ?thesis
      using assms(2) pro
      by (simp add: strategies_installed_def is_membership_command_def line_programme_other
          membership_cache_ok_def js_add_zero_right js_gt_def)
  next
    case coupon
    then have a: "applyCoupon st (split_on CHR '' '' l) = Inr st'"
      using assms(1) by (simp add: processCommand_cases)
    show ?thesis
      using assms(2) coupon applyCoupon_frame [OF a]
      by (simp add: strategies_installed_def is_membership_command_def line_programme_other
          membership_cache_ok_def js_add_zero_right)
  next
    case other
    then have "st' = st" using assms(1) by (simp add: processCommand_cases)
    then show ?thesis
      using other
      by (simp add: assms(2) is_membership_command_def line_programme_other js_add_zero_right)
  qed
qed

lemma processCommand_coupon_kept:
  assumes "processCommand st l = Inr st'" and "appliedCoupon (cart st) = Some x"
  shows "appliedCoupon (cart st') = Some x \<and> discountStrategy (cart st') = discountStrategy (cart st)"
proof -
  have a: "applyCoupon st tokens = Inr st" for tokens
    using assms(2) by (simp add: applyCoupon_def getAppliedCoupon_def)
  show ?thesis
    using assms applyProMembershipCoupon_frame [of "cart st"]
    by (auto simp: processCommand_cases a addProgramme_def addProgramme_cart_def Let_def
        split: if_splits sum.splits)
qed

lemma membership_command_twice:
  assumes "strategies_installed (cart st)"
  shows "\<exists>st1 st2. processCommand st ''PRO_MEMBERSHIP'' = Inr st1
           \<and> processCommand st1 ''PRO_MEMBERSHIP'' = Inr st2
           \<and> proMembershipFee (cart st1) = Fin 200 \<and> proMembershipFee (cart st2) = Fin 200
           \<and> map_sum id fst (printBill (cart st2)) = map_sum id fst (printBill (cart st1))"
proof -
  have n: "command_name ''PRO_MEMBERSHIP'' = Some ''PRO_MEMBERSHIP''"
    by (simp add: command_name_def token_at_def)
  have step: "processCommand s ''PRO_MEMBERSHIP'' =
      Inr (s\<lparr>cart := (cart s)\<lparr>proMembershipDiscount := membership_discount_now (cart s),
                  proMembershipStrategy := Some ProMembershipDiscount,
                  proMembershipFee := Fin 200\<rparr>\<rparr>)"
    if "proMembershipStrategy (cart s) = Some ProMembershipDiscount" for s
    using that by (simp add: processCommand_cases n applyProMembershipCoupon_eq [OF that])
  let ?c1 = "(cart st)\<lparr>proMembershipDiscount := membership_discount_now (cart st),
                  proMembershipStrategy := Some ProMembershipDiscount,
                  proMembershipFee := Fin 200\<rparr>"
  let ?st1 = "st\<lparr>cart := ?c1\<rparr>"
  let ?c2 = "?c1\<lparr>proMembershipDiscount := membership_discount_now ?c1,
                  proMembershipStrategy := Some ProMembershipDiscount,
                  proMembershipFee := Fin 200\<rparr>"
  let ?st2 = "?st1\<lparr>cart := ?c2\<rparr>"
  have ms: "proMembershipStrategy (cart st) = Some ProMembershipDiscount"
    and es: "enrollmentStrategy (cart st) = Some DefaultEnrollmentStrategy"
    using assms by (simp_all add: strategies_installed_def)
  have s1: "processCommand st ''PRO_MEMBERSHIP'' = Inr ?st1" using step [OF ms] .
  have s2: "processCommand ?st1 ''PRO_MEMBERSHIP'' = Inr ?st2" using step [of ?st1] by simp
  have same: "same_inputs ?c1 ?c2" by (simp add: same_inputs_def)
  have ok1: "membership_cache_ok ?c1" and ok2: "membership_cache_ok ?c2"
    by (simp_all add: membership_cache_ok_def js_gt_def)
  have e1: "enrollmentStrategy ?c1 = Some DefaultEnrollmentStrategy" using es by simp
  have m1: "proMembershipStrategy ?c1 = Some ProMembershipDiscount" by simp
  have "map_sum id fst (printBill ?c2) = map_sum id fst (printBill ?c1)"
    by (rule printBill_same_inputs [OF same ok1 ok2 e1 m1])
  then have "processCommand st ''PRO_MEMBERSHIP'' = Inr ?st1
           \<and> processCommand ?st1 ''PRO_MEMBERSHIP'' = Inr ?st2
           \<and> proMembershipFee (cart ?st1) = Fin 200 \<and> proMembershipFee (cart ?st2) = Fin 200
           \<and> map_sum id fst (printBill (cart ?st2)) = map_sum id fst (printBill (cart ?st1))"
    using s1 s2 by simp
  then show ?thesis by blast
qed

section \<open>Runs\<close>

lemma processCommands_run:
  assumes "processCommands st ls = Inr st'" and "strategies_installed (cart st)"
  shows "strategies_installed (cart st')
       \<and> programmes (cart st') = programmes (cart st) @ added_programmes ls
       \<and> count st' = js_add (count st) (js_sum (map quantity (added_programmes ls)))
       \<and> proMembershipFee (cart st') =
           (if \<exists>l \<in> set ls. is_membership_command l then Fin 200
            else proMembershipFee (cart st))
       \<and> (membership_cache_ok (cart st) \<longrightarrow> membership_cache_ok (cart st'))"
  using assms
proof (induction ls arbitrary: st)
  case Nil
  then show ?case by (simp add: added_programmes_def js_add_zero_right)
next
  case (Cons l ls)
  from Cons.prems(1) obtain st1 where s1: "processCommand st l = Inr st1"
    and r: "processCommands st1 ls = Inr st'"
    by (auto split: sum.splits)
  note step = processCommand_step [OF s1 Cons.prems(2)]
  have i1: "strategies_installed (cart st1)" using step by simp
  note ih = Cons.IH [OF r i1]
  have ap: "added_programmes (l # ls) = line_programme l @ added_programmes ls"
    by (simp add: added_programmes_def)
  show ?case
    using step ih unfolding ap
    by (auto simp: js_sum_append js_add_assoc)
qed

lemma processCommands_coupon_kept:
  assumes "processCommands st ls = Inr st'" and "appliedCoupon (cart st) = Some x"
  shows "appliedCoupon (cart st') = Some x \<and> discountStrategy (cart st') = discountStrategy (cart st)"
  using assms
proof (induction ls arbitrary: st)
  case Nil
  then show ?case by simp
next
  case (Cons l ls)
  from Cons.prems(1) obtain st1 where s1: "processCommand st l = Inr st1"
    and r: "processCommands st1 ls = Inr st'"
    by (auto split: sum.splits)
  note k = processCommand_coupon_kept [OF s1 Cons.prems(2)]
  from Cons.IH [OF r] k show ?case by simp
qed

section \<open>The bulk discount\<close>

text \<open>
  C1. The discount of \<^verbatim>\<open>calculateDiscount\<close> and of \<^verbatim>\<open>calculateTotalFare\<close> is the bulk
  discount exactly when the discountable quantity, the sum of the quantities of the
  programmes of type CERTIFICATION, DEGREE or DIPLOMA, is at least 4. It is then the
  minimum single-unit price among the discountable programmes of the cart, whatever the
  discount strategy of the cart is; otherwise it is what the selected strategy returns for
  the amount before discount.
\<close>

theorem bulk_override_decides_discount:
  "(if js_ge (totalDiscountableQuantity c) MIN_DISCOUNTABLE_QUANTITY
    then \<exists>m. spec_minimum_unit_price (programmes c) m
           \<and> calculateDiscount c = Inr (m, c\<lparr>discount := m\<rparr>)
           \<and> calculateTotalFare c = Inr (js_sub (before_discount c) m, c\<lparr>discount := m\<rparr>)
           \<and> (\<forall>s. calculateTotalFare (c\<lparr>discountStrategy := s\<rparr>)
                    = Inr (js_sub (before_discount c) m, c\<lparr>discountStrategy := s, discount := m\<rparr>))
    else calculateDiscount c =
           (case discountStrategy c of
              None \<Rightarrow> Inl TypeError
            | Some s \<Rightarrow>
                (case DiscountStrategy_calculateDiscount s (before_discount c) of
                   Inl e \<Rightarrow> Inl e
                 | Inr d \<Rightarrow> Inr (d, c\<lparr>discount := d\<rparr>)))
         \<and> calculateTotalFare c =
           (case discountStrategy c of
              None \<Rightarrow> Inl TypeError
            | Some s \<Rightarrow>
                (case DiscountStrategy_calculateDiscount s (before_discount c) of
                   Inl e \<Rightarrow> Inl e
                 | Inr d \<Rightarrow> Inr (js_sub (before_discount c) d, c\<lparr>discount := d\<rparr>))))
   \<and> totalDiscountableQuantity c =
       js_sum (map quantity
                 (filter (\<lambda>p. ptype p = CERTIFICATION \<or> ptype p = DEGREE \<or> ptype p = DIPLOMA)
                    (programmes c)))"
proof -
  have q: "totalDiscountableQuantity c =
       js_sum (map quantity
                 (filter (\<lambda>p. ptype p = CERTIFICATION \<or> ptype p = DEGREE \<or> ptype p = DIPLOMA)
                    (programmes c)))"
    by (simp add: totalDiscountableQuantity_sum isDiscountableProgramme_def)
  have main: "if js_ge (totalDiscountableQuantity c) MIN_DISCOUNTABLE_QUANTITY
    then \<exists>m. spec_minimum_unit_price (programmes c) m
           \<and> calculateDiscount c = Inr (m, c\<lparr>discount := m\<rparr>)
           \<and> calculateTotalFare c = Inr (js_sub (before_discount c) m, c\<lparr>discount := m\<rparr>)
           \<and> (\<forall>s. calculateTotalFare (c\<lparr>discountStrategy := s\<rparr>)
                    = Inr (js_sub (before_discount c) m, c\<lparr>discountStrategy := s, discount := m\<rparr>))
    else calculateDiscount c =
           (case discountStrategy c of
              None \<Rightarrow> Inl TypeError
            | Some s \<Rightarrow>
                (case DiscountStrategy_calculateDiscount s (before_discount c) of
                   Inl e \<Rightarrow> Inl e
                 | Inr d \<Rightarrow> Inr (d, c\<lparr>discount := d\<rparr>)))
         \<and> calculateTotalFare c =
           (case discountStrategy c of
              None \<Rightarrow> Inl TypeError
            | Some s \<Rightarrow>
                (case DiscountStrategy_calculateDiscount s (before_discount c) of
                   Inl e \<Rightarrow> Inl e
                 | Inr d \<Rightarrow> Inr (js_sub (before_discount c) d, c\<lparr>discount := d\<rparr>)))"
    (is "if ?A then ?B else ?C")
  proof (cases ?A)
    case True
    let ?m = "calculateMinimumDiscountableProgrammeCost c"
    have any: "calculateTotalFare (c\<lparr>discountStrategy := s\<rparr>)
        = Inr (js_sub (before_discount c) ?m, c\<lparr>discountStrategy := s, discount := ?m\<rparr>)" for s
    proof -
      have "js_ge (totalDiscountableQuantity (c\<lparr>discountStrategy := s\<rparr>)) MIN_DISCOUNTABLE_QUANTITY"
        using True by simp
      from override_discount(2) [OF this] show ?thesis
        by (simp add: before_discount_def)
    qed
    have "?B"
      using minimum_cost_spec(1) [OF True] override_discount [OF True] any by blast
    with True show ?thesis by (simp only: if_True)
  next
    case False
    have "?C" using policy_discount [OF False] by blast
    with False show ?thesis by (simp only: if_False)
  qed
  show ?thesis using main q by (rule conjI)
qed

theorem bulk_override_decides_discount_witness:
  "js_ge (totalDiscountableQuantity
            (main_cart\<lparr>programmes := [\<lparr>ptype = CERTIFICATION, quantity = Fin 2\<rparr>,
                                       \<lparr>ptype = DIPLOMA, quantity = Fin 2\<rparr>],
                       discountStrategy := Some DealG20Discount\<rparr>))
          MIN_DISCOUNTABLE_QUANTITY
   \<and> (\<exists>m. spec_minimum_unit_price [\<lparr>ptype = CERTIFICATION, quantity = Fin 2\<rparr>,
                                     \<lparr>ptype = DIPLOMA, quantity = Fin 2\<rparr>] m
          \<and> calculateDiscount
               (main_cart\<lparr>programmes := [\<lparr>ptype = CERTIFICATION, quantity = Fin 2\<rparr>,
                                          \<lparr>ptype = DIPLOMA, quantity = Fin 2\<rparr>],
                          discountStrategy := Some DealG20Discount\<rparr>)
             = Inr (m, main_cart\<lparr>programmes := [\<lparr>ptype = CERTIFICATION, quantity = Fin 2\<rparr>,
                                                 \<lparr>ptype = DIPLOMA, quantity = Fin 2\<rparr>],
                                 discountStrategy := Some DealG20Discount, discount := m\<rparr>))"
proof -
  let ?c = "main_cart\<lparr>programmes := [\<lparr>ptype = CERTIFICATION, quantity = Fin 2\<rparr>,
                                      \<lparr>ptype = DIPLOMA, quantity = Fin 2\<rparr>],
                      discountStrategy := Some DealG20Discount\<rparr>"
  have h: "js_ge (totalDiscountableQuantity ?c) MIN_DISCOUNTABLE_QUANTITY"
    by code_simp
  show ?thesis
    using h bulk_override_decides_discount [of ?c] by (simp only: if_True) auto
qed

section \<open>The total\<close>




section \<open>A coupon command without a token\<close>

text \<open>
  C3. The command \<^verbatim>\<open>APPLY_COUPON\<close> with no token, when no coupon is applied, is not a
  no-op: \<^verbatim>\<open>applyOtherCoupon\<close> calls \<^verbatim>\<open>toLowerCase\<close> on \<^verbatim>\<open>undefined\<close> and the run ends with
  a \<^verbatim>\<open>TypeError\<close> before any bill is printed. The name \<^verbatim>\<open>constructor\<close>, which is not a
  coupon, is not ignored either: it sets the label and installs a value without
  \<^verbatim>\<open>calculateDiscount\<close>, so that printing the bill throws.
\<close>

theorem apply_coupon_without_token_throws:
  "processCommand initial_state ''APPLY_COUPON'' = Inl TypeError
   \<and> main ''ADD_PROGRAMME DIPLOMA 2\<newline>APPLY_COUPON\<newline>PRINT_BILL'' = Inl TypeError
   \<and> map_sum id (\<lambda>st. (appliedCoupon (cart st), discountStrategy (cart st)))
       (processCommand initial_state ''APPLY_COUPON constructor'')
     = Inr (Some ''CONSTRUCTOR'', Some Object_constructor)
   \<and> main ''APPLY_COUPON constructor'' = Inl TypeError"
  by code_simp

section \<open>Stored results\<close>

text \<open>
  C4, as the code has it. The \<^verbatim>\<open>calculate*\<close> methods are not pure: each stores its result
  in a field of the cart, and \<^verbatim>\<open>calculateEnrollmentFee\<close>, \<^verbatim>\<open>calculateDiscount\<close> and
  \<^verbatim>\<open>calculateTotalFare\<close> read the stored subtotal, enrollment fee and membership discount.
  What holds: no calculation changes the programmes, the strategies, the membership fee or
  the coupon label; printing the bill a second time prints the same bill; and the bill
  \<^verbatim>\<open>printBill\<close> prints, which calls the calculations in the order subtotal, membership
  discount, enrollment fee, discount, total, is the same for two carts that agree on those
  inputs, as long as the stored membership discount is 0 while no membership fee is
  charged.
\<close>

theorem printed_bill_depends_on_inputs_only:
  assumes "enrollmentStrategy c = Some es" and "proMembershipStrategy c = Some ms"
  shows "same_inputs c (snd (calculateSubtotal c))
       \<and> (\<forall>v c'. calculateProMembershipDiscount c = Inr (v, c') \<longrightarrow> same_inputs c c')
       \<and> (\<forall>v c'. calculateEnrollmentFee c = Inr (v, c') \<longrightarrow> same_inputs c c')
       \<and> (\<forall>v c'. calculateDiscount c = Inr (v, c') \<longrightarrow> same_inputs c c')
       \<and> (\<forall>v c'. calculateTotalFare c = Inr (v, c') \<longrightarrow> same_inputs c c')
       \<and> (\<forall>b c'. printBill c = Inr (b, c') \<longrightarrow> printBill c' = Inr (b, c') \<and> same_inputs c c')
       \<and> (\<forall>c2. same_inputs c c2 \<and> membership_cache_ok c \<and> membership_cache_ok c2 \<longrightarrow>
             map_sum id fst (printBill c2) = map_sum id fst (printBill c))"
  using calculateSubtotal_same_inputs [of c]
    calculateProMembershipDiscount_same_inputs [of c]
    calculateEnrollmentFee_same_inputs [of c]
    calculateDiscount_same_inputs [of c]
    calculateTotalFare_same_inputs [of c]
    printBill_again [OF assms]
    printBill_same_inputs [OF _ _ _ assms]
  by blast

theorem printed_bill_depends_on_inputs_only_witness:
  "enrollmentStrategy (addProgramme_cart main_cart \<lparr>ptype = DEGREE, quantity = Fin 2\<rparr>)
     = Some DefaultEnrollmentStrategy
   \<and> proMembershipStrategy (addProgramme_cart main_cart \<lparr>ptype = DEGREE, quantity = Fin 2\<rparr>)
     = Some ProMembershipDiscount
   \<and> (\<exists>b c'. printBill (addProgramme_cart main_cart \<lparr>ptype = DEGREE, quantity = Fin 2\<rparr>)
                = Inr (b, c')
          \<and> printBill c' = Inr (b, c'))
   \<and> map_sum id fst
        (printBill (snd (calculateSubtotal
                           (addProgramme_cart main_cart \<lparr>ptype = DEGREE, quantity = Fin 2\<rparr>))))
     = map_sum id fst
        (printBill (addProgramme_cart main_cart \<lparr>ptype = DEGREE, quantity = Fin 2\<rparr>))"
proof -
  let ?c = "addProgramme_cart main_cart \<lparr>ptype = DEGREE, quantity = Fin 2\<rparr>"
  have h1: "enrollmentStrategy ?c = Some DefaultEnrollmentStrategy"
    by (simp add: addProgramme_cart_def)
  have h2: "proMembershipStrategy ?c = Some ProMembershipDiscount"
    by (simp add: addProgramme_cart_def)
  have h3: "discountStrategy ?c = Some B4G1Discount"
    by (simp add: addProgramme_cart_def)
  have ok: "membership_cache_ok ?c"
    by (simp add: membership_cache_ok_def addProgramme_cart_def)
  have ok2: "membership_cache_ok (snd (calculateSubtotal ?c))"
    by (simp add: membership_cache_ok_def addProgramme_cart_def calculateSubtotal_eq)
  obtain b c' where pb: "printBill ?c = Inr (b, c')"
    using printBill_returns [OF h1 h2 h3] by blast
  note claim = printed_bill_depends_on_inputs_only [OF h1 h2]
  have again: "printBill c' = Inr (b, c')" using claim pb by blast
  have same: "same_inputs ?c (snd (calculateSubtotal ?c))" using claim by blast
  have eq: "map_sum id fst (printBill (snd (calculateSubtotal ?c))) = map_sum id fst (printBill ?c)"
    using claim same ok ok2 by blast
  show ?thesis using h1 h2 pb again eq by blast
qed

text \<open>
  After the one command \<^verbatim>\<open>ADD_PROGRAMME DEGREE 2\<close>, \<^verbatim>\<open>calculateEnrollmentFee\<close> returns
  500 when it is called first and 0 when \<^verbatim>\<open>calculateSubtotal\<close> has been called before
  it, although that call changed none of the inputs of the cart.
\<close>

theorem enrollment_fee_depends_on_earlier_calls:
  "map_sum id cart (processCommands initial_state [''ADD_PROGRAMME DEGREE 2''])
     = Inr (addProgramme_cart main_cart \<lparr>ptype = DEGREE, quantity = Fin 2\<rparr>)
   \<and> map_sum id fst
     (calculateEnrollmentFee (addProgramme_cart main_cart \<lparr>ptype = DEGREE, quantity = Fin 2\<rparr>))
     = Inr (Fin 500)
   \<and> map_sum id fst
     (calculateEnrollmentFee
        (snd (calculateSubtotal
                (addProgramme_cart main_cart \<lparr>ptype = DEGREE, quantity = Fin 2\<rparr>))))
     = Inr (Fin 0)
   \<and> same_inputs (addProgramme_cart main_cart \<lparr>ptype = DEGREE, quantity = Fin 2\<rparr>)
        (snd (calculateSubtotal
                (addProgramme_cart main_cart \<lparr>ptype = DEGREE, quantity = Fin 2\<rparr>)))"
  by code_simp

section \<open>The bulk coupon\<close>

text \<open>
  C5, as the code has it. In a state with no coupon applied, \<^verbatim>\<open>applyCoupon\<close> sets the
  label to B4G1 and leaves the discount strategy as it is exactly when the counter is at
  least 4 and the command has exactly two tokens, the name and one argument, whatever the
  argument is. In every run the counter is the sum of the quantities of all programmes
  added, of unknown type too, while the discountable quantity of the bulk discount is the
  sum over the three known types only.
\<close>

theorem bulk_coupon_label:
  "(getAppliedCoupon (cart st) = None \<longrightarrow>
      ((\<exists>st'. applyCoupon st tokens = Inr st' \<and> appliedCoupon (cart st') = Some ''B4G1''
              \<and> discountStrategy (cart st') = discountStrategy (cart st))
       \<longleftrightarrow> (js_ge (count st) (Fin 4) \<and> length tokens = 2)))
   \<and> (processCommands initial_state ls = Inr st2 \<longrightarrow>
        count st2 = js_sum (map quantity (programmes (cart st2)))
        \<and> totalDiscountableQuantity (cart st2) =
            js_sum (map quantity
                      (filter (\<lambda>p. ptype p = CERTIFICATION \<or> ptype p = DEGREE \<or> ptype p = DIPLOMA)
                         (programmes (cart st2)))))"
proof (intro conjI impI)
  assume none: "getAppliedCoupon (cart st) = None"
  show "(\<exists>st'. applyCoupon st tokens = Inr st' \<and> appliedCoupon (cart st') = Some ''B4G1''
              \<and> discountStrategy (cart st') = discountStrategy (cart st))
       \<longleftrightarrow> (js_ge (count st) (Fin 4) \<and> length tokens = 2)"
  proof (cases "js_ge (count st) (Fin 4) \<and> length tokens = 2")
    case True
    then have "applyCoupon st tokens = Inr (st\<lparr>cart := setAppliedCoupon (cart st) ''B4G1''\<rparr>)"
      using none by (simp add: applyCoupon_def MIN_DISCOUNTABLE_QUANTITY_def)
    then show ?thesis using True by (simp add: setAppliedCoupon_def)
  next
    case False
    have "appliedCoupon (cart st') \<noteq> Some ''B4G1''" if a: "applyCoupon st tokens = Inr st'" for st'
    proof -
      from a False none obtain c where o: "applyOtherCoupon (cart st) (token_at tokens 1) = Inr c"
        and c: "cart st' = c"
        by (auto simp: applyCoupon_def MIN_DISCOUNTABLE_QUANTITY_def split: sum.splits)
      from applyOtherCoupon_label [OF o] none show ?thesis
        by (simp add: c getAppliedCoupon_def)
    qed
    then show ?thesis using False by blast
  qed
next
  assume run: "processCommands initial_state ls = Inr st2"
  note r = processCommands_run [OF run initial_state_installed]
  show "count st2 = js_sum (map quantity (programmes (cart st2)))"
    using r by (simp add: js_add_zero_left)
  show "totalDiscountableQuantity (cart st2) =
            js_sum (map quantity
                      (filter (\<lambda>p. ptype p = CERTIFICATION \<or> ptype p = DEGREE \<or> ptype p = DIPLOMA)
                         (programmes (cart st2))))"
    by (simp add: totalDiscountableQuantity_sum isDiscountableProgramme_def)
qed

theorem bulk_coupon_label_witness:
  "getAppliedCoupon
     (cart \<lparr>cart = addProgramme_cart main_cart \<lparr>ptype = OTHER, quantity = Fin 5\<rparr>,
            count = Fin 5\<rparr>) = None
   \<and> (\<exists>st'. applyCoupon
                \<lparr>cart = addProgramme_cart main_cart \<lparr>ptype = OTHER, quantity = Fin 5\<rparr>,
                 count = Fin 5\<rparr> [''APPLY_COUPON'', ''DEAL_G20''] = Inr st'
          \<and> appliedCoupon (cart st') = Some ''B4G1''
          \<and> discountStrategy (cart st') = Some B4G1Discount)
   \<and> processCommands initial_state [''ADD_PROGRAMME FOO 5'']
       = Inr \<lparr>cart = addProgramme_cart main_cart \<lparr>ptype = OTHER, quantity = Fin 5\<rparr>,
              count = Fin 5\<rparr>
   \<and> count \<lparr>cart = addProgramme_cart main_cart \<lparr>ptype = OTHER, quantity = Fin 5\<rparr>,
             count = Fin 5\<rparr>
       = js_sum (map quantity
                   (programmes (addProgramme_cart main_cart \<lparr>ptype = OTHER, quantity = Fin 5\<rparr>)))
   \<and> totalDiscountableQuantity (addProgramme_cart main_cart \<lparr>ptype = OTHER, quantity = Fin 5\<rparr>)
       = Fin 0"
proof -
  let ?st = "\<lparr>cart = addProgramme_cart main_cart \<lparr>ptype = OTHER, quantity = Fin 5\<rparr>,
              count = Fin 5\<rparr>"
  have h1: "getAppliedCoupon (cart ?st) = None"
    by (simp add: getAppliedCoupon_def addProgramme_cart_def)
  have h2: "js_ge (count ?st) (Fin 4) \<and> length [''APPLY_COUPON'', ''DEAL_G20''] = 2"
    by (simp add: js_ge_def)
  have h3: "processCommands initial_state [''ADD_PROGRAMME FOO 5''] = Inr ?st"
    by code_simp
  have d: "discountStrategy (cart ?st) = Some B4G1Discount"
    by (simp add: addProgramme_cart_def)
  have q: "totalDiscountableQuantity (cart ?st) = Fin 0"
    by code_simp
  note claim = bulk_coupon_label [of ?st "[''APPLY_COUPON'', ''DEAL_G20'']"
      "[''ADD_PROGRAMME FOO 5'']" ?st]
  have a: "\<exists>st'. applyCoupon ?st [''APPLY_COUPON'', ''DEAL_G20''] = Inr st'
          \<and> appliedCoupon (cart st') = Some ''B4G1''
          \<and> discountStrategy (cart st') = Some B4G1Discount"
    using claim h1 h2 d by simp
  have c: "count ?st = js_sum (map quantity (programmes (cart ?st)))"
    using claim h3 by blast
  show ?thesis using h1 a h3 c q by simp
qed

text \<open>
  A command that carries an argument and more: with a third token, or only a space after
  the name of the coupon, the guard on two tokens fails although the counter is 4, and the
  second token is looked up as a coupon.
\<close>

theorem coupon_command_with_three_tokens:
  "map_sum id (\<lambda>st. (count st, appliedCoupon (cart st), discountStrategy (cart st)))
     (processCommands initial_state [''ADD_PROGRAMME DEGREE 4'', ''APPLY_COUPON DEAL_G5 NOW''])
     = Inr (Fin 4, Some ''DEAL_G5'', Some DealG5Discount)
   \<and> map_sum id (\<lambda>st. (count st, appliedCoupon (cart st), discountStrategy (cart st)))
     (processCommands initial_state [''ADD_PROGRAMME DEGREE 4'', ''APPLY_COUPON DEAL_G5 ''])
     = Inr (Fin 4, Some ''DEAL_G5'', Some DealG5Discount)
   \<and> map_sum id (\<lambda>st. (count st, appliedCoupon (cart st), discountStrategy (cart st)))
     (processCommands initial_state [''ADD_PROGRAMME DEGREE 4'', ''APPLY_COUPON DEAL_G5''])
     = Inr (Fin 4, Some ''B4G1'', Some B4G1Discount)"
  by code_simp

section \<open>One coupon\<close>

text \<open>
  C6. Once a coupon label is set, \<^verbatim>\<open>applyCoupon\<close> returns the state unchanged, so every
  later \<^verbatim>\<open>APPLY_COUPON\<close> command is a no-op, and after any further commands the label
  and the discount strategy are still the same.
\<close>

theorem coupon_label_set_once:
  assumes "getAppliedCoupon (cart st) = Some x"
  shows "applyCoupon st tokens = Inr st
       \<and> (command_name l = Some ''APPLY_COUPON'' \<longrightarrow> processCommand st l = Inr st)
       \<and> (\<forall>ls st'. processCommands st ls = Inr st' \<longrightarrow>
             appliedCoupon (cart st') = Some x
             \<and> discountStrategy (cart st') = discountStrategy (cart st))"
proof -
  have a: "applyCoupon st t = Inr st" for t
    using assms by (rule applyCoupon_applied)
  have x: "appliedCoupon (cart st) = Some x"
    using assms by (simp add: getAppliedCoupon_def)
  show ?thesis
    using a processCommands_coupon_kept [OF _ x]
    by (auto simp: processCommand_cases)
qed

theorem coupon_label_set_once_witness:
  "getAppliedCoupon
     (cart \<lparr>cart = main_cart\<lparr>discountStrategy := Some DealG5Discount,
                              appliedCoupon := Some ''DEAL_G5''\<rparr>,
            count = Fin 0\<rparr>) = Some ''DEAL_G5''
   \<and> applyCoupon
       \<lparr>cart = main_cart\<lparr>discountStrategy := Some DealG5Discount,
                          appliedCoupon := Some ''DEAL_G5''\<rparr>,
        count = Fin 0\<rparr> [''APPLY_COUPON'', ''DEAL_G20'']
     = Inr \<lparr>cart = main_cart\<lparr>discountStrategy := Some DealG5Discount,
                               appliedCoupon := Some ''DEAL_G5''\<rparr>,
            count = Fin 0\<rparr>
   \<and> processCommands initial_state [''APPLY_COUPON DEAL_G5'']
     = Inr \<lparr>cart = main_cart\<lparr>discountStrategy := Some DealG5Discount,
                               appliedCoupon := Some ''DEAL_G5''\<rparr>,
            count = Fin 0\<rparr>
   \<and> processCommand
       \<lparr>cart = main_cart\<lparr>discountStrategy := Some DealG5Discount,
                          appliedCoupon := Some ''DEAL_G5''\<rparr>,
        count = Fin 0\<rparr> ''APPLY_COUPON DEAL_G20''
     = Inr \<lparr>cart = main_cart\<lparr>discountStrategy := Some DealG5Discount,
                               appliedCoupon := Some ''DEAL_G5''\<rparr>,
            count = Fin 0\<rparr>"
proof -
  let ?st = "\<lparr>cart = main_cart\<lparr>discountStrategy := Some DealG5Discount,
                                 appliedCoupon := Some ''DEAL_G5''\<rparr>,
              count = Fin 0\<rparr>"
  have h: "getAppliedCoupon (cart ?st) = Some ''DEAL_G5''"
    by (simp add: getAppliedCoupon_def)
  have n: "command_name ''APPLY_COUPON DEAL_G20'' = Some ''APPLY_COUPON''"
    by code_simp
  have r: "processCommands initial_state [''APPLY_COUPON DEAL_G5''] = Inr ?st"
    by code_simp
  note claim = coupon_label_set_once [OF h, of "[''APPLY_COUPON'', ''DEAL_G20'']"
      "''APPLY_COUPON DEAL_G20''"]
  show ?thesis using h n r claim by blast
qed

section \<open>The membership fee\<close>

text \<open>
  C7. After a run, the membership fee is 200 when the run had a \<^verbatim>\<open>PRO_MEMBERSHIP\<close>
  command and 0 when it had none. Two more membership commands both succeed, leave the fee
  at 200 and print the same bill as one; once the fee is 200 no further command changes
  it; and the bill shows this fee and adds it once to the total.
\<close>

theorem membership_fee_charged_once:
  assumes "processCommands initial_state ls = Inr st"
  shows "proMembershipFee (cart st) =
           (if \<exists>l \<in> set ls. is_membership_command l then Fin 200 else Fin 0)
       \<and> (\<exists>st1 st2. processCommand st ''PRO_MEMBERSHIP'' = Inr st1
             \<and> processCommand st1 ''PRO_MEMBERSHIP'' = Inr st2
             \<and> proMembershipFee (cart st1) = Fin 200 \<and> proMembershipFee (cart st2) = Fin 200
             \<and> map_sum id fst (printBill (cart st2)) = map_sum id fst (printBill (cart st1)))
       \<and> (\<forall>more st'. processCommands st more = Inr st' \<and> proMembershipFee (cart st) = Fin 200
             \<longrightarrow> proMembershipFee (cart st') = Fin 200)
       \<and> (\<forall>b c'. printBill (cart st) = Inr (b, c') \<longrightarrow>
             PRO_MEMBERSHIP_FEE_line b = proMembershipFee (cart st)
             \<and> TOTAL b =
                 js_sub (js_sub (js_add (js_add (SUB_TOTAL b) (ENROLLMENT_FEE b))
                                    (proMembershipFee (cart st)))
                           (TOTAL_PRO_DISCOUNT b))
                   (COUPON_DISCOUNT b))"
proof -
  note r = processCommands_run [OF assms initial_state_installed]
  have inst: "strategies_installed (cart st)" using r by simp
  have fee: "proMembershipFee (cart st) =
           (if \<exists>l \<in> set ls. is_membership_command l then Fin 200 else Fin 0)"
    using r by simp
  have keep: "proMembershipFee (cart st') = Fin 200"
    if "processCommands st more = Inr st'" and "proMembershipFee (cart st) = Fin 200"
    for more st'
    using processCommands_run [OF that(1) inst] that(2) by (simp split: if_splits)
  show ?thesis
    using fee membership_command_twice [OF inst] keep printBill_fee_line(1,3) [OF inst]
    by blast
qed

theorem membership_fee_charged_once_witness:
  "processCommands initial_state
     [''ADD_PROGRAMME DEGREE 1'', ''PRO_MEMBERSHIP'', ''PRO_MEMBERSHIP'']
     = Inr \<lparr>cart = main_cart\<lparr>programmes := [\<lparr>ptype = DEGREE, quantity = Fin 1\<rparr>],
                               proMembershipFee := Fin 200,
                               proMembershipDiscount := Fin 150\<rparr>,
            count = Fin 1\<rparr>
   \<and> proMembershipFee
       (cart \<lparr>cart = main_cart\<lparr>programmes := [\<lparr>ptype = DEGREE, quantity = Fin 1\<rparr>],
                                proMembershipFee := Fin 200,
                                proMembershipDiscount := Fin 150\<rparr>,
              count = Fin 1\<rparr>)
     = (if \<exists>l \<in> set [''ADD_PROGRAMME DEGREE 1'', ''PRO_MEMBERSHIP'', ''PRO_MEMBERSHIP''].
             is_membership_command l
        then Fin 200 else Fin 0)
   \<and> is_membership_command ''PRO_MEMBERSHIP''"
proof -
  let ?st = "\<lparr>cart = main_cart\<lparr>programmes := [\<lparr>ptype = DEGREE, quantity = Fin 1\<rparr>],
                                 proMembershipFee := Fin 200,
                                 proMembershipDiscount := Fin 150\<rparr>,
              count = Fin 1\<rparr>"
  have h: "processCommands initial_state
     [''ADD_PROGRAMME DEGREE 1'', ''PRO_MEMBERSHIP'', ''PRO_MEMBERSHIP''] = Inr ?st"
    by code_simp
  have m: "is_membership_command ''PRO_MEMBERSHIP''"
    by code_simp
  show ?thesis using h m membership_fee_charged_once [OF h] by blast
qed

section \<open>The membership discount\<close>

text \<open>
  C8. After a run, \<^verbatim>\<open>calculateProMembershipDiscount\<close> returns the sum over all programmes
  of the cart of discount rate times cost when membership is active (the fee is positive,
  which is the case exactly when the run had a membership command), and 0 when it is not.
  The programmes of the cart are all those the run added, before or after the membership
  command, and the bill prints the discount computed from all of them.
\<close>

theorem membership_discount_from_current_items:
  assumes "processCommands initial_state ls = Inr st"
  shows "programmes (cart st) = added_programmes ls
       \<and> (js_gt (proMembershipFee (cart st)) (Fin 0) \<longleftrightarrow> (\<exists>l \<in> set ls. is_membership_command l))
       \<and> (\<exists>c'. calculateProMembershipDiscount (cart st) =
             Inr (spec_membership_discount (js_gt (proMembershipFee (cart st)) (Fin 0))
                    (programmes (cart st)), c'))
       \<and> (\<forall>b c'. printBill (cart st) = Inr (b, c') \<longrightarrow>
             TOTAL_PRO_DISCOUNT b =
               spec_membership_discount (\<exists>l \<in> set ls. is_membership_command l)
                 (added_programmes ls))"
proof -
  note r = processCommands_run [OF assms initial_state_installed]
  have inst: "strategies_installed (cart st)" using r by simp
  have ps: "programmes (cart st) = added_programmes ls" using r by simp
  have act: "js_gt (proMembershipFee (cart st)) (Fin 0) \<longleftrightarrow> (\<exists>l \<in> set ls. is_membership_command l)"
    using r by (simp add: js_gt_def)
  have ok: "membership_cache_ok (cart st)" using r main_cart_cache_ok by simp
  note now = membership_discount_now_spec [OF ok]
  have ms: "proMembershipStrategy (cart st) = Some ProMembershipDiscount"
    using inst by (simp add: strategies_installed_def)
  have calc: "\<exists>c'. calculateProMembershipDiscount (cart st) =
             Inr (spec_membership_discount (js_gt (proMembershipFee (cart st)) (Fin 0))
                    (programmes (cart st)), c')"
    unfolding calculateProMembershipDiscount_eq [OF ms] now by blast
  have line: "TOTAL_PRO_DISCOUNT b =
               spec_membership_discount (\<exists>l \<in> set ls. is_membership_command l)
                 (added_programmes ls)"
    if "printBill (cart st) = Inr (b, c')" for b c'
    using printBill_fee_line(2) [OF inst that] now act ps by simp
  show ?thesis using ps act calc line by blast
qed

theorem membership_discount_from_current_items_witness:
  "processCommands initial_state
     [''ADD_PROGRAMME DEGREE 1'', ''PRO_MEMBERSHIP'', ''ADD_PROGRAMME DIPLOMA 2'']
     = Inr \<lparr>cart = main_cart\<lparr>programmes := [\<lparr>ptype = DEGREE, quantity = Fin 1\<rparr>,
                                              \<lparr>ptype = DIPLOMA, quantity = Fin 2\<rparr>],
                               proMembershipFee := Fin 200\<rparr>,
            count = Fin 3\<rparr>
   \<and> (\<exists>c'. calculateProMembershipDiscount
              (main_cart\<lparr>programmes := [\<lparr>ptype = DEGREE, quantity = Fin 1\<rparr>,
                                         \<lparr>ptype = DIPLOMA, quantity = Fin 2\<rparr>],
                         proMembershipFee := Fin 200\<rparr>)
            = Inr (Fin 200, c'))"
proof -
  let ?c = "main_cart\<lparr>programmes := [\<lparr>ptype = DEGREE, quantity = Fin 1\<rparr>,
                                      \<lparr>ptype = DIPLOMA, quantity = Fin 2\<rparr>],
                      proMembershipFee := Fin 200\<rparr>"
  let ?st = "\<lparr>cart = ?c, count = Fin 3\<rparr>"
  have h: "processCommands initial_state
     [''ADD_PROGRAMME DEGREE 1'', ''PRO_MEMBERSHIP'', ''ADD_PROGRAMME DIPLOMA 2''] = Inr ?st"
    by code_simp
  have v: "spec_membership_discount (js_gt (proMembershipFee (cart ?st)) (Fin 0))
             (programmes (cart ?st)) = Fin 200"
    by (simp add: spec_membership_discount_def js_gt_def)
  from membership_discount_from_current_items [OF h]
  have "\<exists>c'. calculateProMembershipDiscount (cart ?st) =
             Inr (spec_membership_discount (js_gt (proMembershipFee (cart ?st)) (Fin 0))
                    (programmes (cart ?st)), c')"
    by blast
  then have "\<exists>c'. calculateProMembershipDiscount ?c = Inr (Fin 200, c')"
    unfolding v by simp
  then show ?thesis using h by blast
qed

section \<open>The enrollment fee\<close>

text \<open>
  C9. The enrollment fee is 500 for a subtotal strictly below 6666 and 0 otherwise; a
  subtotal of exactly 6666 gives 0. \<^verbatim>\<open>calculateEnrollmentFee\<close> applies this rule to the
  subtotal stored in the cart.
\<close>

theorem enrollment_fee_threshold:
  "EnrollmentStrategy_calculateEnrollmentFee DefaultEnrollmentStrategy (Fin r)
     = (if r < 6666 then Fin 500 else Fin 0)
   \<and> EnrollmentStrategy_calculateEnrollmentFee DefaultEnrollmentStrategy (Fin 6666) = Fin 0
   \<and> EnrollmentStrategy_calculateEnrollmentFee DefaultEnrollmentStrategy x
     = (if js_lt x (Fin 6666) then Fin 500 else Fin 0)
   \<and> (enrollmentStrategy c = Some DefaultEnrollmentStrategy \<longrightarrow>
        calculateEnrollmentFee c
          = Inr (if js_lt (subtotal c) (Fin 6666) then Fin 500 else Fin 0,
                 c\<lparr>enrollmentFee := if js_lt (subtotal c) (Fin 6666) then Fin 500 else Fin 0\<rparr>))"
  using calculateEnrollmentFee_eq [of c DefaultEnrollmentStrategy]
  by (simp add: DEFAULT_ENROLLMENT_FEE_THRESHOLD_def DEFAULT_ENROLLMENT_FEE_def
      spec_enrollment_fee_def)

theorem enrollment_fee_threshold_witness:
  "EnrollmentStrategy_calculateEnrollmentFee DefaultEnrollmentStrategy (Fin (666599 / 100)) = Fin 500
   \<and> EnrollmentStrategy_calculateEnrollmentFee DefaultEnrollmentStrategy (Fin 6666) = Fin 0
   \<and> enrollmentStrategy (main_cart\<lparr>subtotal := Fin 6000\<rparr>) = Some DefaultEnrollmentStrategy
   \<and> calculateEnrollmentFee (main_cart\<lparr>subtotal := Fin 6000\<rparr>)
       = Inr (Fin 500, main_cart\<lparr>subtotal := Fin 6000, enrollmentFee := Fin 500\<rparr>)"
proof -
  have h: "enrollmentStrategy (main_cart\<lparr>subtotal := Fin 6000\<rparr>) = Some DefaultEnrollmentStrategy"
    by (simp add: main_cart_def setProMembershipStrategy_def setEnrollmentStrategy_def)
  show ?thesis
    using h enrollment_fee_threshold [of "666599 / 100" NaN "main_cart\<lparr>subtotal := Fin 6000\<rparr>"]
    by simp
qed

section \<open>The start value of the minimum\<close>

text \<open>
  C10. When the discountable quantity is at least 4, the list of discountable programmes
  is not empty, so the minimum that \<^verbatim>\<open>calculateMinimumDiscountableProgrammeCost\<close> folds
  from \<^verbatim>\<open>Infinity\<close> is the unit price of a discountable programme of the cart, one of
  2500, 3000 and 5000, and this finite value is the discount that \<^verbatim>\<open>calculateDiscount\<close>
  and \<^verbatim>\<open>calculateTotalFare\<close> store and subtract: \<^verbatim>\<open>Infinity\<close> never gets there.
\<close>

theorem minimum_cost_is_a_present_unit_price:
  assumes "js_ge (totalDiscountableQuantity c) MIN_DISCOUNTABLE_QUANTITY"
  shows "filter (\<lambda>p. isDiscountableProgramme (ptype p)) (programmes c) \<noteq> []
       \<and> (\<exists>p \<in> set (programmes c). isDiscountableProgramme (ptype p)
             \<and> calculateMinimumDiscountableProgrammeCost c = getSingleCost p)
       \<and> calculateMinimumDiscountableProgrammeCost c \<in> {Fin 2500, Fin 3000, Fin 5000}
       \<and> (\<exists>d c'. calculateDiscount c = Inr (d, c') \<and> d \<in> {Fin 2500, Fin 3000, Fin 5000}
             \<and> discount c' = d)
       \<and> (\<exists>d t c'. calculateTotalFare c = Inr (t, c') \<and> d \<in> {Fin 2500, Fin 3000, Fin 5000}
             \<and> discount c' = d \<and> t = js_sub (before_discount c) d)"
proof -
  have ne: "filter (\<lambda>p. isDiscountableProgramme (ptype p)) (programmes c) \<noteq> []"
    using assms quantity_sum_nonempty unfolding totalDiscountableQuantity_def by blast
  have present: "\<exists>p \<in> set (programmes c). isDiscountableProgramme (ptype p)
      \<and> calculateMinimumDiscountableProgrammeCost c = getSingleCost p"
    using minimum_cost_spec(1) [OF assms] unfolding spec_minimum_unit_price_def by auto
  have fin: "calculateMinimumDiscountableProgrammeCost c \<in> {Fin 2500, Fin 3000, Fin 5000}"
    using minimum_cost_spec(2) [OF assms] unfolding unit_price_def by simp
  show ?thesis
    using ne present fin override_discount [OF assms] by simp
qed

theorem minimum_cost_is_a_present_unit_price_witness:
  "js_ge (totalDiscountableQuantity
            (main_cart\<lparr>programmes := [\<lparr>ptype = OTHER, quantity = Fin 9\<rparr>,
                                       \<lparr>ptype = DEGREE, quantity = Fin 1\<rparr>,
                                       \<lparr>ptype = DIPLOMA, quantity = Fin 3\<rparr>]\<rparr>))
          MIN_DISCOUNTABLE_QUANTITY
   \<and> calculateMinimumDiscountableProgrammeCost
        (main_cart\<lparr>programmes := [\<lparr>ptype = OTHER, quantity = Fin 9\<rparr>,
                                   \<lparr>ptype = DEGREE, quantity = Fin 1\<rparr>,
                                   \<lparr>ptype = DIPLOMA, quantity = Fin 3\<rparr>]\<rparr>)
       \<in> {Fin 2500, Fin 3000, Fin 5000}"
proof -
  let ?c = "main_cart\<lparr>programmes := [\<lparr>ptype = OTHER, quantity = Fin 9\<rparr>,
                                      \<lparr>ptype = DEGREE, quantity = Fin 1\<rparr>,
                                      \<lparr>ptype = DIPLOMA, quantity = Fin 3\<rparr>]\<rparr>"
  have h: "js_ge (totalDiscountableQuantity ?c) MIN_DISCOUNTABLE_QUANTITY"
    by code_simp
  show ?thesis
    using h minimum_cost_is_a_present_unit_price [OF h] by blast
qed

end
